theory Spec2Isabelle
  imports Complex_Main "HOL-Library.Monad_Syntax"
begin

section \<open>Tensor shapes and layer descriptors\<close>

text \<open>
  The network of \<^verbatim>\<open>model/PConv.py\<close> is a graph of library layers. A feature tensor is
  seen here through its shape \<open>(batch, channel, height, width)\<close>; the numeric contents
  of a tensor (floating-point values) are not part of the model.
\<close>

record shape =
  batch :: nat
  chan :: nat
  height :: nat
  width :: nat

definition shp :: "nat \<Rightarrow> nat \<Rightarrow> nat \<Rightarrow> nat \<Rightarrow> shape" where
  "shp b c h w = \<lparr>batch = b, chan = c, height = h, width = w\<rparr>"

text \<open>
  A library layer is described by the arguments its constructor was given.
  \<^verbatim>\<open>nn.Conv2d(in, out, kernel, stride=1, padding=0, dilation=1, groups=1, bias=True)\<close>;
  an integer kernel or padding \<open>n\<close> stands for the pair \<open>(n, n)\<close>. Counts and extents are
  natural numbers; a padding is an integer, since \<^verbatim>\<open>autopad\<close> can compute a negative one.
\<close>

record Conv2d =
  in_channels :: nat
  out_channels :: nat
  kernel_size :: "nat \<times> nat"
  stride :: nat
  padding :: "int \<times> int"
  dilation :: nat
  groups :: nat
  bias :: bool

record BatchNorm2d =
  num_features :: nat

datatype activation = SiLU | ReLU | Sigmoid | Identity

datatype interpolation = Nearest | Bilinear

record Upsample =
  scale_factor :: nat
  mode :: interpolation
  align_corners :: bool

record MaxPool2d =
  pool_kernel :: nat
  pool_stride :: nat

text \<open>\<^verbatim>\<open>nn.ZeroPad2d(padding=(left, right, top, bottom))\<close>.\<close>

type_synonym ZeroPad2d = "nat \<times> nat \<times> nat \<times> nat"

section \<open>The tensor runtime\<close>

text \<open>
  Every operation on tensors is delegated to the tensor library. The forward functions
  below are written once, over an arbitrary tensor type \<open>'t\<close> and a record of the
  library operations they call. Each operation is a function of its arguments: the
  forward computation has no other state.
\<close>

record 't torch =
  conv2d :: "Conv2d \<Rightarrow> 't \<Rightarrow> 't"
  batch_norm :: "BatchNorm2d \<Rightarrow> 't \<Rightarrow> 't"
  activate :: "activation \<Rightarrow> 't \<Rightarrow> 't"
  zero_pad2d :: "ZeroPad2d \<Rightarrow> 't \<Rightarrow> 't"
  adaptive_avg_pool2d :: "nat \<Rightarrow> 't \<Rightarrow> 't"
  adaptive_max_pool2d :: "nat \<Rightarrow> 't \<Rightarrow> 't"
  max_pool2d :: "MaxPool2d \<Rightarrow> 't \<Rightarrow> 't"
  upsample :: "Upsample \<Rightarrow> 't \<Rightarrow> 't"
  cat1 :: "'t list \<Rightarrow> 't"
  mean1 :: "'t \<Rightarrow> 't"
  max1 :: "'t \<Rightarrow> 't"
  mul :: "'t \<Rightarrow> 't \<Rightarrow> 't"
  add :: "'t \<Rightarrow> 't \<Rightarrow> 't"
  iadd :: "'t \<Rightarrow> 't \<Rightarrow> 't"

section \<open>The shape rules of the library operations\<close>

text \<open>
  The shape of the result of each operation, or \<open>None\<close> where the library raises.
  Convolution: the input must have \<open>in_channels\<close> channels, the weight must have at
  least \<open>groups\<close> output channels, the padding must not be negative, and the padded
  input must not be smaller than the dilated kernel; the output extent is
  \<open>(n + 2p - d(k-1) - 1) div s + 1\<close>. A convolution over an input without channels
  gives an output without channels.
\<close>

definition conv_out :: "nat \<Rightarrow> nat \<Rightarrow> nat \<Rightarrow> int \<Rightarrow> nat \<Rightarrow> nat" where
  "conv_out n k s p d = nat (int n + 2 * p - int (d * (k - 1) + 1)) div s + 1"

definition conv2d_ok :: "Conv2d \<Rightarrow> shape \<Rightarrow> bool" where
  "conv2d_ok m x =
     (0 < groups m \<and> 0 < stride m \<and> 0 < dilation m
      \<and> 0 < fst (kernel_size m) \<and> 0 < snd (kernel_size m)
      \<and> groups m \<le> out_channels m
      \<and> in_channels m mod groups m = 0 \<and> out_channels m mod groups m = 0
      \<and> chan x = in_channels m
      \<and> 0 \<le> fst (padding m) \<and> 0 \<le> snd (padding m)
      \<and> int (dilation m * (fst (kernel_size m) - 1) + 1) \<le> int (height x) + 2 * fst (padding m)
      \<and> int (dilation m * (snd (kernel_size m) - 1) + 1) \<le> int (width x) + 2 * snd (padding m))"

definition conv2d_shape :: "Conv2d \<Rightarrow> shape \<Rightarrow> shape option" where
  "conv2d_shape m x =
     (if conv2d_ok m x
      then Some (shp (batch x) (if in_channels m = 0 then 0 else out_channels m)
             (conv_out (height x) (fst (kernel_size m)) (stride m) (fst (padding m)) (dilation m))
             (conv_out (width x) (snd (kernel_size m)) (stride m) (snd (padding m)) (dilation m)))
      else None)"

text \<open>
  Batch normalisation keeps the shape of an input with \<open>num_features\<close> channels. A
  module in training mode computes batch statistics and raises when there is a single
  value per channel (\<open>batch * height * width = 1\<close>); in evaluation mode it does not.
\<close>

definition batch_norm_shape :: "bool \<Rightarrow> BatchNorm2d \<Rightarrow> shape \<Rightarrow> shape option" where
  "batch_norm_shape training m x =
     (if chan x = num_features m \<and> \<not> (training \<and> batch x * height x * width x = 1)
      then Some x else None)"

definition zero_pad2d_shape :: "ZeroPad2d \<Rightarrow> shape \<Rightarrow> shape option" where
  "zero_pad2d_shape p x =
     (case p of (l, r, t, b) \<Rightarrow>
        Some (shp (batch x) (chan x) (height x + t + b) (width x + l + r)))"

definition adaptive_pool_shape :: "nat \<Rightarrow> shape \<Rightarrow> shape option" where
  "adaptive_pool_shape n x =
     (if 0 < chan x \<and> 0 < height x \<and> 0 < width x
      then Some (shp (batch x) (chan x) n n) else None)"

text \<open>
  Max pooling without padding and with floor rounding: an extent smaller than the
  window gives an empty output, which the library refuses.
\<close>

definition max_pool2d_shape :: "MaxPool2d \<Rightarrow> shape \<Rightarrow> shape option" where
  "max_pool2d_shape m x =
     (if 0 < pool_kernel m \<and> 0 < pool_stride m
         \<and> pool_kernel m \<le> height x \<and> pool_kernel m \<le> width x
      then Some (shp (batch x) (chan x)
             ((height x - pool_kernel m) div pool_stride m + 1)
             ((width x - pool_kernel m) div pool_stride m + 1))
      else None)"

definition upsample_shape :: "Upsample \<Rightarrow> shape \<Rightarrow> shape option" where
  "upsample_shape m x =
     (if 0 < height x * scale_factor m \<and> 0 < width x * scale_factor m
      then Some (shp (batch x) (chan x) (height x * scale_factor m) (width x * scale_factor m))
      else None)"

text \<open>
  \<^verbatim>\<open>torch.cat(xs, dim=1)\<close>: the tensors agree on every axis but the channel axis, and the
  channel counts add up. An empty list is refused.
\<close>

definition same_frame :: "shape \<Rightarrow> shape \<Rightarrow> bool" where
  "same_frame x y = (batch y = batch x \<and> height y = height x \<and> width y = width x)"

fun cat1_shape :: "shape list \<Rightarrow> shape option" where
  "cat1_shape [] = None"
| "cat1_shape (x # xs) =
     (if list_all (same_frame x) xs
      then Some (shp (batch x) (sum_list (map chan (x # xs))) (height x) (width x))
      else None)"

text \<open>
  \<^verbatim>\<open>torch.mean(x, dim=1, keepdim=True)\<close> and \<^verbatim>\<open>torch.max(x, dim=1, keepdim=True)\<close>: one
  channel is left; the maximum over an empty axis is refused.
\<close>

definition mean1_shape :: "shape \<Rightarrow> shape option" where
  "mean1_shape x = Some (shp (batch x) 1 (height x) (width x))"

definition max1_shape :: "shape \<Rightarrow> shape option" where
  "max1_shape x = (if 0 < chan x then Some (shp (batch x) 1 (height x) (width x)) else None)"

text \<open>
  Elementwise operations broadcast: two extents are compatible when they are equal or
  one of them is 1. The in-place sum \<^verbatim>\<open>out += residual\<close> keeps the shape of \<open>out\<close>, so
  the broadcast shape has to be that of \<open>out\<close>.
\<close>

definition broadcast_dim :: "nat \<Rightarrow> nat \<Rightarrow> nat option" where
  "broadcast_dim a b =
     (if a = b then Some a else if a = 1 then Some b else if b = 1 then Some a else None)"

definition broadcast_shape :: "shape \<Rightarrow> shape \<Rightarrow> shape option" where
  "broadcast_shape x y =
     do { b \<leftarrow> broadcast_dim (batch x) (batch y);
          c \<leftarrow> broadcast_dim (chan x) (chan y);
          h \<leftarrow> broadcast_dim (height x) (height y);
          w \<leftarrow> broadcast_dim (width x) (width y);
          Some (shp b c h w) }"

definition iadd_shape :: "shape \<Rightarrow> shape \<Rightarrow> shape option" where
  "iadd_shape x y =
     do { s \<leftarrow> broadcast_shape x y;
          if s = x then Some x else None }"

text \<open>
  The runtime on shapes. A tensor is \<open>Some\<close> shape, or \<open>None\<close> once an operation has
  raised; every operation passes \<open>None\<close> on. The flag is the training mode of the
  module tree (\<^verbatim>\<open>net.train()\<close> / \<^verbatim>\<open>net.eval()\<close>; a fresh module is in training mode).
\<close>

definition lift2 :: "('a \<Rightarrow> 'a \<Rightarrow> 'a option) \<Rightarrow> 'a option \<Rightarrow> 'a option \<Rightarrow> 'a option" where
  "lift2 f a b = do { x \<leftarrow> a; y \<leftarrow> b; f x y }"

definition shape_rt :: "bool \<Rightarrow> shape option torch" where
  "shape_rt training =
     \<lparr> conv2d = (\<lambda>m t. t \<bind> conv2d_shape m),
       batch_norm = (\<lambda>m t. t \<bind> batch_norm_shape training m),
       activate = (\<lambda>a t. t),
       zero_pad2d = (\<lambda>p t. t \<bind> zero_pad2d_shape p),
       adaptive_avg_pool2d = (\<lambda>n t. t \<bind> adaptive_pool_shape n),
       adaptive_max_pool2d = (\<lambda>n t. t \<bind> adaptive_pool_shape n),
       max_pool2d = (\<lambda>m t. t \<bind> max_pool2d_shape m),
       upsample = (\<lambda>m t. t \<bind> upsample_shape m),
       cat1 = (\<lambda>ts. those ts \<bind> cat1_shape),
       mean1 = (\<lambda>t. t \<bind> mean1_shape),
       max1 = (\<lambda>t. t \<bind> max1_shape),
       mul = lift2 broadcast_shape,
       add = lift2 broadcast_shape,
       iadd = lift2 iadd_shape \<rparr>"

section \<open>The layers of \<^verbatim>\<open>model/PConv.py\<close>\<close>

subsection \<open>\<^verbatim>\<open>autopad\<close> and \<^verbatim>\<open>Conv\<close>\<close>

text \<open>
  A kernel or padding argument is an integer or a pair of integers. \<^verbatim>\<open>autopad\<close> computes
  with Python's integers: \<open>d * (k - 1) + 1\<close> is negative for \<open>k = 0\<close> and \<open>d > 1\<close>, and
  \<open>//\<close> rounds down.
\<close>

datatype 'a size2 = Scalar 'a | Pair 'a 'a

fun pair_of :: "'a size2 \<Rightarrow> 'a \<times> 'a" where
  "pair_of (Scalar n) = (n, n)"
| "pair_of (Pair a b) = (a, b)"

definition autopad :: "nat size2 \<Rightarrow> int size2 option \<Rightarrow> nat \<Rightarrow> int size2" where
  "autopad k p d =
     (let k = (if d > 1
               then (case k of
                       Scalar n \<Rightarrow> Scalar (int d * (int n - 1) + 1)
                     | Pair a b \<Rightarrow> Pair (int d * (int a - 1) + 1) (int d * (int b - 1) + 1))
               else (case k of Scalar n \<Rightarrow> Scalar (int n) | Pair a b \<Rightarrow> Pair (int a) (int b)))
      in case p of
           None \<Rightarrow> (case k of Scalar n \<Rightarrow> Scalar (n div 2) | Pair a b \<Rightarrow> Pair (a div 2) (b div 2))
         | Some p \<Rightarrow> p)"

text \<open>
  The \<^verbatim>\<open>act\<close> argument of \<^verbatim>\<open>Conv\<close>: \<^verbatim>\<open>True\<close> selects the default activation (SiLU),
  a module is taken as it is, anything else gives the identity.
\<close>

datatype act_arg = ActBool bool | ActModule activation

definition default_act :: activation where
  "default_act = SiLU"

record Conv =
  cv_conv :: Conv2d
  cv_bn :: BatchNorm2d
  cv_act :: activation

definition Conv_init ::
  "nat \<Rightarrow> nat \<Rightarrow> nat size2 \<Rightarrow> nat \<Rightarrow> int size2 option \<Rightarrow> nat \<Rightarrow> nat \<Rightarrow> act_arg \<Rightarrow> Conv" where
  "Conv_init c1 c2 k s p g d act =
     \<lparr> cv_conv = \<lparr> in_channels = c1, out_channels = c2, kernel_size = pair_of k, stride = s,
                   padding = pair_of (autopad k p d), dilation = d, groups = g, bias = False \<rparr>,
       cv_bn = \<lparr> num_features = c2 \<rparr>,
       cv_act = (case act of ActBool True \<Rightarrow> default_act
                          | ActModule m \<Rightarrow> m
                          | ActBool False \<Rightarrow> Identity) \<rparr>"

definition Conv_forward :: "'t torch \<Rightarrow> Conv \<Rightarrow> 't \<Rightarrow> 't" where
  "Conv_forward T self x =
     activate T (cv_act self) (batch_norm T (cv_bn self) (conv2d T (cv_conv self) x))"

definition Conv_forward_fuse :: "'t torch \<Rightarrow> Conv \<Rightarrow> 't \<Rightarrow> 't" where
  "Conv_forward_fuse T self x = activate T (cv_act self) (conv2d T (cv_conv self) x)"

subsection \<open>\<^verbatim>\<open>PConv\<close>\<close>

text \<open>
  \<^verbatim>\<open>self.pad\<close> is a list of exactly four padding layers, built by a comprehension over
  \<^verbatim>\<open>range(4)\<close>, and \<^verbatim>\<open>forward\<close> reads its entries 0 to 3: it is a 4-tuple here.
\<close>

record PConv =
  pc_pad :: "ZeroPad2d \<times> ZeroPad2d \<times> ZeroPad2d \<times> ZeroPad2d"
  pc_cw :: Conv
  pc_ch :: Conv
  pc_cat :: Conv

definition PConv_init :: "nat \<Rightarrow> nat \<Rightarrow> nat \<Rightarrow> nat \<Rightarrow> PConv" where
  "PConv_init c1 c2 k s =
     \<lparr> pc_pad = ((k, 0, 1, 0), (0, k, 0, 1), (0, 1, k, 0), (1, 0, 0, k)),
       pc_cw = Conv_init c1 (c2 div 4) (Pair 1 k) s (Some (Scalar 0)) 1 1 (ActBool True),
       pc_ch = Conv_init c1 (c2 div 4) (Pair k 1) s (Some (Scalar 0)) 1 1 (ActBool True),
       pc_cat = Conv_init c2 c2 (Scalar 2) 1 (Some (Scalar 0)) 1 1 (ActBool True) \<rparr>"

definition PConv_forward :: "'t torch \<Rightarrow> PConv \<Rightarrow> 't \<Rightarrow> 't" where
  "PConv_forward T self x =
     (case pc_pad self of (pad0, pad1, pad2, pad3) \<Rightarrow>
        let yw0 = Conv_forward T (pc_cw self) (zero_pad2d T pad0 x);
            yw1 = Conv_forward T (pc_cw self) (zero_pad2d T pad1 x);
            yh0 = Conv_forward T (pc_ch self) (zero_pad2d T pad2 x);
            yh1 = Conv_forward T (pc_ch self) (zero_pad2d T pad3 x)
        in Conv_forward T (pc_cat self) (cat1 T [yw0, yw1, yh0, yh1]))"

subsection \<open>\<^verbatim>\<open>ChannelAttention\<close> and \<^verbatim>\<open>SpatialAttention\<close>\<close>

definition nn_Conv2d :: "nat \<Rightarrow> nat \<Rightarrow> nat \<Rightarrow> nat \<Rightarrow> nat \<Rightarrow> bool \<Rightarrow> Conv2d" where
  "nn_Conv2d cin cout k s p b =
     \<lparr> in_channels = cin, out_channels = cout, kernel_size = (k, k), stride = s,
       padding = (int p, int p), dilation = 1, groups = 1, bias = b \<rparr>"

record ChannelAttention =
  ca_avg_pool :: nat
  ca_max_pool :: nat
  ca_fc1 :: Conv2d
  ca_relu1 :: activation
  ca_fc2 :: Conv2d
  ca_sigmoid :: activation

text \<open>The \<^verbatim>\<open>ratio\<close> argument is not read: the reduction is by 16.\<close>

definition ChannelAttention_init :: "nat \<Rightarrow> nat \<Rightarrow> ChannelAttention" where
  "ChannelAttention_init in_planes ratio =
     \<lparr> ca_avg_pool = 1, ca_max_pool = 1,
       ca_fc1 = nn_Conv2d in_planes (in_planes div 16) 1 1 0 False,
       ca_relu1 = ReLU,
       ca_fc2 = nn_Conv2d (in_planes div 16) in_planes 1 1 0 False,
       ca_sigmoid = Sigmoid \<rparr>"

definition ChannelAttention_forward :: "'t torch \<Rightarrow> ChannelAttention \<Rightarrow> 't \<Rightarrow> 't" where
  "ChannelAttention_forward T self x =
     (let avg_out = conv2d T (ca_fc2 self) (activate T (ca_relu1 self)
                      (conv2d T (ca_fc1 self) (adaptive_avg_pool2d T (ca_avg_pool self) x)));
          max_out = conv2d T (ca_fc2 self) (activate T (ca_relu1 self)
                      (conv2d T (ca_fc1 self) (adaptive_max_pool2d T (ca_max_pool self) x)));
          out = add T avg_out max_out
      in activate T (ca_sigmoid self) out)"

record SpatialAttention =
  sa_conv1 :: Conv2d
  sa_sigmoid :: activation

text \<open>The constructor asserts that the kernel size is 3 or 7; \<open>None\<close> is the failed assertion.\<close>

definition SpatialAttention_init :: "nat \<Rightarrow> SpatialAttention option" where
  "SpatialAttention_init ksize =
     (if ksize = 3 \<or> ksize = 7
      then (let pad = (if ksize = 7 then 3 else 1)
            in Some \<lparr> sa_conv1 = nn_Conv2d 2 1 ksize 1 pad False,
                      sa_sigmoid = Sigmoid \<rparr>)
      else None)"

definition SpatialAttention_forward :: "'t torch \<Rightarrow> SpatialAttention \<Rightarrow> 't \<Rightarrow> 't" where
  "SpatialAttention_forward T self x =
     (let avg_out = mean1 T x;
          max_out = max1 T x;
          x = cat1 T [avg_out, max_out];
          x = conv2d T (sa_conv1 self) x
      in activate T (sa_sigmoid self) x)"

subsection \<open>The residual block \<^verbatim>\<open>ResNet\<close>\<close>

text \<open>\<^verbatim>\<open>self.conv1\<close> and \<^verbatim>\<open>self.conv2\<close> are partial convolutions or library convolutions.\<close>

datatype conv_layer = Standard Conv2d | Partial PConv

fun conv_layer_forward :: "'t torch \<Rightarrow> conv_layer \<Rightarrow> 't \<Rightarrow> 't" where
  "conv_layer_forward T (Standard c) x = conv2d T c x"
| "conv_layer_forward T (Partial p) x = PConv_forward T p x"

record ResNet =
  rn_PC :: bool
  rn_conv1 :: conv_layer
  rn_conv2 :: conv_layer
  rn_bn1 :: BatchNorm2d
  rn_relu :: activation
  rn_bn2 :: BatchNorm2d
  rn_shortcut :: "(Conv2d \<times> BatchNorm2d) option"
  rn_ca :: ChannelAttention
  rn_sa :: SpatialAttention

definition ResNet_init :: "nat \<Rightarrow> nat \<Rightarrow> nat \<Rightarrow> bool \<Rightarrow> ResNet option" where
  "ResNet_init in_ch out_ch strd PC =
     do { sa \<leftarrow> SpatialAttention_init 7;
          Some \<lparr> rn_PC = PC,
                 rn_conv1 = (if PC then Partial (PConv_init in_ch out_ch 4 strd)
                             else Standard (nn_Conv2d in_ch out_ch 3 strd 1 True)),
                 rn_conv2 = (if PC then Partial (PConv_init out_ch out_ch 3 strd)
                             else Standard (nn_Conv2d out_ch out_ch 3 1 1 True)),
                 rn_bn1 = \<lparr> num_features = out_ch \<rparr>,
                 rn_relu = ReLU,
                 rn_bn2 = \<lparr> num_features = out_ch \<rparr>,
                 rn_shortcut = (if strd \<noteq> 1 \<or> out_ch \<noteq> in_ch
                                then Some (nn_Conv2d in_ch out_ch 1 strd 0 True,
                                           \<lparr> num_features = out_ch \<rparr>)
                                else None),
                 rn_ca = ChannelAttention_init out_ch 16,
                 rn_sa = sa \<rparr> }"

text \<open>
  The first three lines of \<^verbatim>\<open>ResNet.forward\<close> compute the shortcut path: the input
  itself, or the shortcut sequence (convolution, then normalisation) applied to it.
\<close>

definition ResNet_residual :: "'t torch \<Rightarrow> ResNet \<Rightarrow> 't \<Rightarrow> 't" where
  "ResNet_residual T self x =
     (let residual = x
      in case rn_shortcut self of
           Some (c, b) \<Rightarrow> batch_norm T b (conv2d T c x)
         | None \<Rightarrow> residual)"

definition ResNet_forward :: "'t torch \<Rightarrow> ResNet \<Rightarrow> 't \<Rightarrow> 't" where
  "ResNet_forward T self x =
     (let residual = ResNet_residual T self x
      in if rn_PC self then
           (let out = conv_layer_forward T (rn_conv1 self) x;
                out = conv_layer_forward T (rn_conv2 self) out;
                out = mul T (ChannelAttention_forward T (rn_ca self) out) out;
                out = mul T (SpatialAttention_forward T (rn_sa self) out) out;
                out = iadd T out residual;
                out = activate T (rn_relu self) out
            in out)
         else
           (let out = conv_layer_forward T (rn_conv1 self) x;
                out = batch_norm T (rn_bn1 self) out;
                out = activate T (rn_relu self) out;
                out = conv_layer_forward T (rn_conv2 self) out;
                out = batch_norm T (rn_bn2 self) out;
                out = mul T (ChannelAttention_forward T (rn_ca self) out) out;
                out = mul T (SpatialAttention_forward T (rn_sa self) out) out;
                out = iadd T out residual;
                out = activate T (rn_relu self) out
            in out))"

subsection \<open>The network \<^verbatim>\<open>MSHNet\<close>\<close>

text \<open>A stage (\<^verbatim>\<open>nn.Sequential\<close>) is the list of its blocks, applied in order.\<close>

definition Sequential_forward :: "'t torch \<Rightarrow> ResNet list \<Rightarrow> 't \<Rightarrow> 't" where
  "Sequential_forward T layer x = foldl (\<lambda>y b. ResNet_forward T b y) x layer"

text \<open>
  \<^verbatim>\<open>_make_layer\<close>: the first block gets the \<^verbatim>\<open>PC\<close> flag, the loop appends
  \<^verbatim>\<open>block_num - 1\<close> blocks built with the default flag.
\<close>

fun make_layer_loop :: "nat \<Rightarrow> nat \<Rightarrow> ResNet list \<Rightarrow> ResNet list option" where
  "make_layer_loop 0 out_ch layer = Some layer"
| "make_layer_loop (Suc n) out_ch layer =
     do { b \<leftarrow> ResNet_init out_ch out_ch 1 False;
          make_layer_loop n out_ch (layer @ [b]) }"

definition make_layer :: "nat \<Rightarrow> nat \<Rightarrow> nat \<Rightarrow> bool \<Rightarrow> ResNet list option" where
  "make_layer in_ch out_ch block_num PC =
     do { b \<leftarrow> ResNet_init in_ch out_ch 1 PC;
          make_layer_loop (block_num - 1) out_ch ([] @ [b]) }"

record MSHNet =
  pool :: MaxPool2d
  up :: Upsample
  up_4 :: Upsample
  up_8 :: Upsample
  up_16 :: Upsample
  conv_init :: Conv2d
  encoder_0 :: "ResNet list"
  encoder_1 :: "ResNet list"
  encoder_2 :: "ResNet list"
  encoder_3 :: "ResNet list"
  middle_layer :: "ResNet list"
  decoder_3 :: "ResNet list"
  decoder_2 :: "ResNet list"
  decoder_1 :: "ResNet list"
  decoder_0 :: "ResNet list"
  output_0 :: Conv2d
  output_1 :: Conv2d
  output_2 :: Conv2d
  output_3 :: Conv2d
  final :: Conv2d

text \<open>
  The constructor's \<^verbatim>\<open>block\<close> argument is the class \<^verbatim>\<open>ResNet\<close>, its default.
\<close>

definition param_channels :: "nat \<times> nat \<times> nat \<times> nat \<times> nat" where
  "param_channels = (16, 32, 64, 128, 256)"

definition param_blocks :: "nat \<times> nat \<times> nat \<times> nat" where
  "param_blocks = (2, 2, 2, 2)"

definition nn_Upsample :: "nat \<Rightarrow> Upsample" where
  "nn_Upsample f = \<lparr> scale_factor = f, mode = Bilinear, align_corners = True \<rparr>"

definition MSHNet_init :: "nat \<Rightarrow> bool \<Rightarrow> MSHNet option" where
  "MSHNet_init input_channels PC =
     (case param_channels of (pc0, pc1, pc2, pc3, pc4) \<Rightarrow>
      case param_blocks of (pb0, pb1, pb2, pb3) \<Rightarrow>
        do { e0 \<leftarrow> make_layer pc0 pc0 1 PC;
             e1 \<leftarrow> make_layer pc0 pc1 pb0 False;
             e2 \<leftarrow> make_layer pc1 pc2 pb1 False;
             e3 \<leftarrow> make_layer pc2 pc3 pb2 False;
             m \<leftarrow> make_layer pc3 pc4 pb3 False;
             d3 \<leftarrow> make_layer (pc3 + pc4) pc3 pb2 False;
             d2 \<leftarrow> make_layer (pc2 + pc3) pc2 pb1 False;
             d1 \<leftarrow> make_layer (pc1 + pc2) pc1 pb0 False;
             d0 \<leftarrow> make_layer (pc0 + pc1) pc0 1 False;
             Some \<lparr> pool = \<lparr> pool_kernel = 2, pool_stride = 2 \<rparr>,
                    up = nn_Upsample 2,
                    up_4 = nn_Upsample 4,
                    up_8 = nn_Upsample 8,
                    up_16 = nn_Upsample 4,
                    conv_init = nn_Conv2d input_channels pc0 1 1 0 True,
                    encoder_0 = e0, encoder_1 = e1, encoder_2 = e2, encoder_3 = e3,
                    middle_layer = m,
                    decoder_3 = d3, decoder_2 = d2, decoder_1 = d1, decoder_0 = d0,
                    output_0 = nn_Conv2d pc0 1 1 1 0 True,
                    output_1 = nn_Conv2d pc1 1 1 1 0 True,
                    output_2 = nn_Conv2d pc2 1 1 1 0 True,
                    output_3 = nn_Conv2d pc3 1 1 1 0 True,
                    final = nn_Conv2d 4 1 3 1 1 True \<rparr> })"

text \<open>
  \<^verbatim>\<open>MSHNet.forward\<close>. The frame holds the local variables of the call at its return
  and the returned pair (the list of auxiliary maps, the output map).
\<close>

record 't frame =
  x_e0 :: 't
  x_e1 :: 't
  x_e2 :: 't
  x_e3 :: 't
  x_m :: 't
  x_d3 :: 't
  x_d2 :: 't
  x_d1 :: 't
  x_d0 :: 't
  returned :: "'t list \<times> 't"

definition MSHNet_forward_frame :: "'t torch \<Rightarrow> MSHNet \<Rightarrow> 't \<Rightarrow> bool \<Rightarrow> 't frame" where
  "MSHNet_forward_frame T self x warm_flag =
     (let xe0 = Sequential_forward T (encoder_0 self) (conv2d T (conv_init self) x);
          xe1 = Sequential_forward T (encoder_1 self) (max_pool2d T (pool self) xe0);
          xe2 = Sequential_forward T (encoder_2 self) (max_pool2d T (pool self) xe1);
          xe3 = Sequential_forward T (encoder_3 self) (max_pool2d T (pool self) xe2);
          xm = Sequential_forward T (middle_layer self) (max_pool2d T (pool self) xe3);
          xd3 = Sequential_forward T (decoder_3 self) (cat1 T [xe3, upsample T (up self) xm]);
          xd2 = Sequential_forward T (decoder_2 self) (cat1 T [xe2, upsample T (up self) xd3]);
          xd1 = Sequential_forward T (decoder_1 self) (cat1 T [xe1, upsample T (up self) xd2]);
          xd0 = Sequential_forward T (decoder_0 self) (cat1 T [xe0, upsample T (up self) xd1])
      in \<lparr> x_e0 = xe0, x_e1 = xe1, x_e2 = xe2, x_e3 = xe3, x_m = xm,
           x_d3 = xd3, x_d2 = xd2, x_d1 = xd1, x_d0 = xd0,
           returned =
             (if warm_flag then
                (let mask0 = conv2d T (output_0 self) xd0;
                     mask1 = conv2d T (output_1 self) xd1;
                     mask2 = conv2d T (output_2 self) xd2;
                     mask3 = conv2d T (output_3 self) xd3;
                     output = conv2d T (final self)
                                (cat1 T [mask0, upsample T (up self) mask1,
                                         upsample T (up_4 self) mask2,
                                         upsample T (up_8 self) mask3])
                 in ([mask0, mask1, mask2, mask3], output))
              else
                (let output = conv2d T (output_0 self) xd0
                 in ([], output))) \<rparr>)"

definition MSHNet_forward :: "'t torch \<Rightarrow> MSHNet \<Rightarrow> 't \<Rightarrow> bool \<Rightarrow> 't list \<times> 't" where
  "MSHNet_forward T self x warm_flag = returned (MSHNet_forward_frame T self x warm_flag)"

text \<open>
  A call on shapes returns when no operation has raised. Every tensor computed by a
  forward function above flows into its result, so a \<open>None\<close> anywhere makes the
  result \<open>None\<close>, as the exception would end the call.
\<close>

definition MSHNet_call ::
  "bool \<Rightarrow> MSHNet \<Rightarrow> shape \<Rightarrow> bool \<Rightarrow> (shape list \<times> shape) option" where
  "MSHNet_call training self s warm_flag =
     (case MSHNet_forward (shape_rt training) self (Some s) warm_flag of
        (aux, output) \<Rightarrow> do { a \<leftarrow> those aux; out \<leftarrow> output; Some (a, out) })"

text \<open>Constructing a module and calling it on a tensor of a given shape.\<close>

definition ResNet_run :: "bool \<Rightarrow> nat \<Rightarrow> nat \<Rightarrow> nat \<Rightarrow> bool \<Rightarrow> shape \<Rightarrow> shape option" where
  "ResNet_run training in_ch out_ch strd PC s =
     do { blk \<leftarrow> ResNet_init in_ch out_ch strd PC;
          ResNet_forward (shape_rt training) blk (Some s) }"

definition MSHNet_run ::
  "bool \<Rightarrow> nat \<Rightarrow> bool \<Rightarrow> shape \<Rightarrow> bool \<Rightarrow> (shape list \<times> shape) option" where
  "MSHNet_run training input_channels PC s warm_flag =
     do { net \<leftarrow> MSHNet_init input_channels PC;
          MSHNet_call training net s warm_flag }"

fun is_partial :: "conv_layer \<Rightarrow> bool" where
  "is_partial (Partial p) = True"
| "is_partial (Standard c) = False"

section \<open>Values: a float32 runtime on one-pixel tensors\<close>

text \<open>
  The attention gates end in a sigmoid, computed by the library in float32. To see what
  values a gate can take, the operations are interpreted once more, on the tensors of
  shape \<open>(1, C, 1, 1)\<close>: one sample, one pixel, given by the list of its \<open>C\<close> channel
  values.

  A float32 number is \<open>m * 2 ^ (e - 23)\<close> with an integer \<open>m\<close>, \<open>|m| < 2 ^ 24\<close>, and
  \<open>-126 \<le> e \<le> 127\<close>. \<open>f32\<close> rounds a real number to the nearest float32 number, ties to
  the even significand; below the normal range the grid is that of the subnormal
  numbers, so that tiny values round to zero. A result of magnitude \<open>2 ^ 128\<close> or more is
  an overflow to infinity; it is \<open>None\<close> here, as infinities and NaN are not values of
  this model.
\<close>

definition round_even :: "real \<Rightarrow> int" where
  "round_even x =
     (let f = \<lfloor>x\<rfloor>; r = x - of_int f
      in if r < 1 / 2 then f
         else if 1 / 2 < r then f + 1
         else if even f then f else f + 1)"

definition f32 :: "real \<Rightarrow> real option" where
  "f32 y =
     (if y = 0 then Some 0
      else (let e = max \<lfloor>log 2 \<bar>y\<bar>\<rfloor> (- 126);
                q = of_int (round_even (y * 2 powr (23 - of_int e))) * 2 powr (of_int e - 23)
            in if \<bar>q\<bar> < 2 powr 128 then Some q else None))"

text \<open>
  The activations on one value. The sigmoid is the logistic function rounded to float32;
  SiLU multiplies its argument by the sigmoid.
\<close>

definition sigmoid_f32 :: "real \<Rightarrow> real option" where
  "sigmoid_f32 v = f32 (1 / (1 + exp (- v)))"

fun act_f32 :: "activation \<Rightarrow> real \<Rightarrow> real option" where
  "act_f32 Sigmoid v = sigmoid_f32 v"
| "act_f32 SiLU v = sigmoid_f32 v \<bind> (\<lambda>s. f32 (v * s))"
| "act_f32 ReLU v = Some (max 0 v)"
| "act_f32 Identity v = Some v"

text \<open>
  The learned parameters of a convolution. For a kernel of extent \<open>2p + 1\<close> with padding
  \<open>p\<close> and no dilation, the output on a one-pixel input is one pixel again, and only the
  centre of the kernel meets the pixel; the other positions meet the zero padding. The
  parameters are therefore the centre weights, by output and input channel, and the
  biases. A sum of products is computed exactly and rounded once. Grouped, dilated and
  off-centre convolutions are outside this model.
\<close>

definition centred :: "Conv2d \<Rightarrow> bool" where
  "centred m =
     (groups m = 1 \<and> dilation m = 1
      \<and> int (fst (kernel_size m)) = 2 * fst (padding m) + 1
      \<and> int (snd (kernel_size m)) = 2 * snd (padding m) + 1)"

record conv_params =
  centre_weight :: "Conv2d \<Rightarrow> nat \<Rightarrow> nat \<Rightarrow> real"
  conv_bias :: "Conv2d \<Rightarrow> nat \<Rightarrow> real"

definition pixel_conv2d :: "conv_params \<Rightarrow> Conv2d \<Rightarrow> real list \<Rightarrow> real list option" where
  "pixel_conv2d W m xs =
     (if centred m
         \<and> conv2d_shape m (shp 1 (length xs) 1 1) = Some (shp 1 (out_channels m) 1 1)
      then those (map (\<lambda>oc. f32 (sum_list (map (\<lambda>i. centre_weight W m oc i * xs ! i)
                                                 [0..<length xs])
                                     + (if bias m then conv_bias W m oc else 0)))
                      [0..<out_channels m])
      else None)"

text \<open>Elementwise operations with broadcasting over the channel axis.\<close>

definition pixel_binop ::
  "(real \<Rightarrow> real \<Rightarrow> real) \<Rightarrow> real list \<Rightarrow> real list \<Rightarrow> real list option" where
  "pixel_binop f xs ys =
     (if length xs = length ys then those (map2 (\<lambda>x y. f32 (f x y)) xs ys)
      else if length xs = 1 then those (map (\<lambda>y. f32 (f (xs ! 0) y)) ys)
      else if length ys = 1 then those (map (\<lambda>x. f32 (f x (ys ! 0))) xs)
      else None)"

definition pixel_iadd :: "real list \<Rightarrow> real list \<Rightarrow> real list option" where
  "pixel_iadd xs ys =
     do { zs \<leftarrow> pixel_binop (+) xs ys;
          if length zs = length xs then Some zs else None }"

text \<open>
  The runtime of a module in training mode on one-pixel tensors. \<open>None\<close> stands for an
  exception of the library and for a result outside the model: a tensor of more than one
  pixel, or a value that is not a finite number. Batch normalisation in training mode
  raises on one pixel of one sample; pooling a single pixel to size 1 gives that pixel.
\<close>

definition pixel_rt :: "conv_params \<Rightarrow> real list option torch" where
  "pixel_rt W =
     \<lparr> conv2d = (\<lambda>m t. t \<bind> pixel_conv2d W m),
       batch_norm = (\<lambda>m t. None),
       activate = (\<lambda>a t. t \<bind> (\<lambda>xs. those (map (act_f32 a) xs))),
       zero_pad2d = (\<lambda>p t. if p = (0, 0, 0, 0) then t else None),
       adaptive_avg_pool2d = (\<lambda>n t. t \<bind> (\<lambda>xs. if n = 1 \<and> xs \<noteq> [] then Some xs else None)),
       adaptive_max_pool2d = (\<lambda>n t. t \<bind> (\<lambda>xs. if n = 1 \<and> xs \<noteq> [] then Some xs else None)),
       max_pool2d = (\<lambda>m t. t \<bind> (\<lambda>xs.
                       if max_pool2d_shape m (shp 1 (length xs) 1 1) = Some (shp 1 (length xs) 1 1)
                       then Some xs else None)),
       upsample = (\<lambda>m t. if scale_factor m = 1 then t else None),
       cat1 = (\<lambda>ts. those ts \<bind> (\<lambda>xss. if xss = [] then None else Some (concat xss))),
       mean1 = (\<lambda>t. t \<bind> (\<lambda>xs. if xs = [] then None
                                   else map_option (\<lambda>v. [v]) (f32 (sum_list xs / real (length xs))))),
       max1 = (\<lambda>t. t \<bind> (\<lambda>xs. if xs = [] then None else Some [Max (set xs)])),
       mul = lift2 (pixel_binop (*)),
       add = lift2 (pixel_binop (+)),
       iadd = lift2 pixel_iadd \<rparr>"



section \<open>Shapes computed by the layers\<close>

lemma rt_simps [simp]:
  "conv2d (shape_rt tr) m t = t \<bind> conv2d_shape m"
  "batch_norm (shape_rt tr) bn t = t \<bind> batch_norm_shape tr bn"
  "activate (shape_rt tr) a t = t"
  "zero_pad2d (shape_rt tr) p t = t \<bind> zero_pad2d_shape p"
  "adaptive_avg_pool2d (shape_rt tr) n t = t \<bind> adaptive_pool_shape n"
  "adaptive_max_pool2d (shape_rt tr) n t = t \<bind> adaptive_pool_shape n"
  "max_pool2d (shape_rt tr) mp t = t \<bind> max_pool2d_shape mp"
  "upsample (shape_rt tr) u t = t \<bind> upsample_shape u"
  "cat1 (shape_rt tr) ts = those ts \<bind> cat1_shape"
  "mean1 (shape_rt tr) t = t \<bind> mean1_shape"
  "max1 (shape_rt tr) t = t \<bind> max1_shape"
  "mul (shape_rt tr) = lift2 broadcast_shape"
  "add (shape_rt tr) = lift2 broadcast_shape"
  "iadd (shape_rt tr) = lift2 iadd_shape"
  by (simp_all add: shape_rt_def)

lemma shp_sel [simp]:
  "batch (shp b c h w) = b" "chan (shp b c h w) = c"
  "height (shp b c h w) = h" "width (shp b c h w) = w"
  by (simp_all add: shp_def)

lemma shp_eq_iff [simp]: "(shp b c h w = shp b' c' h' w') = (b = b' \<and> c = c' \<and> h = h' \<and> w = w')"
  by (auto simp: shp_def)

lemma lift2_Some [simp]: "lift2 f (Some x) (Some y) = f x y"
  by (simp add: lift2_def)

lemma lift2_None [simp]: "lift2 f None b = None" "lift2 f a None = None"
  by (cases a; simp add: lift2_def)+

lemma nat_int_diff: "nat (int a - int b) = a - b"
  by simp

lemma nn_Conv2d_shape:
  assumes "c = cin" "0 < cin" "0 < cout" "0 < k" "0 < s" "k \<le> h + 2 * p" "k \<le> w + 2 * p"
  shows "conv2d_shape (nn_Conv2d cin cout k s p bi) (shp b c h w)
         = Some (shp b cout ((h + 2 * p - k) div s + 1) ((w + 2 * p - k) div s + 1))"
proof -
  have 1: "nat (int h + 2 * int p - int k) = h + 2 * p - k"
    "nat (int w + 2 * int p - int k) = w + 2 * p - k"
    by linarith+
  show ?thesis
    using assms by (simp add: conv2d_shape_def conv2d_ok_def nn_Conv2d_def conv_out_def 1)
qed

lemma bn_shape:
  assumes "tr \<longrightarrow> b * h * w \<noteq> 1"
  shows "batch_norm_shape tr \<lparr>num_features = c\<rparr> (shp b c h w) = Some (shp b c h w)"
  using assms by (auto simp add: batch_norm_shape_def)

lemma ChannelAttention_shape:
  assumes "16 \<le> c" "0 < h" "0 < w"
  shows "ChannelAttention_forward (shape_rt tr) (ChannelAttention_init c r) (Some (shp b c h w))
         = Some (shp b c 1 1)"
proof -
  have "0 < c div 16" using assms(1) by (simp add: div_greater_zero_iff)
  then show ?thesis using assms
    by (simp add: ChannelAttention_forward_def ChannelAttention_init_def adaptive_pool_shape_def
        nn_Conv2d_shape broadcast_shape_def broadcast_dim_def)
qed

lemma SpatialAttention_shape:
  assumes "SpatialAttention_init ks = Some sa" "0 < c" "0 < h" "0 < w"
  shows "SpatialAttention_forward (shape_rt tr) sa (Some (shp b c h w)) = Some (shp b 1 h w)"
proof -
  have ks: "ks = 3 \<or> ks = 7" using assms(1) by (auto simp add: SpatialAttention_init_def split: if_splits)
  have c7: "conv2d_shape (nn_Conv2d 2 1 7 1 3 False) (shp b (Suc (Suc 0)) h w) = Some (shp b 1 h w)"
    using nn_Conv2d_shape[where c="Suc (Suc 0)" and cin=2 and cout=1 and k=7 and s=1 and p=3
        and h=h and w=w and b=b and bi=False] assms by simp
  have c3: "conv2d_shape (nn_Conv2d 2 1 3 1 1 False) (shp b (Suc (Suc 0)) h w) = Some (shp b 1 h w)"
    using nn_Conv2d_shape[where c="Suc (Suc 0)" and cin=2 and cout=1 and k=3 and s=1 and p=1
        and h=h and w=w and b=b and bi=False] assms by simp
  show ?thesis
    using assms ks c3 c7
    by (auto simp add: SpatialAttention_forward_def SpatialAttention_init_def mean1_shape_def
        max1_shape_def same_frame_def)
qed

lemma Conv_shape:
  assumes "c = c1" "0 < c1" "0 < c2" "0 < kh" "0 < kw" "kh \<le> h" "kw \<le> w"
    and "tr \<longrightarrow> b * (h - kh + 1) * (w - kw + 1) \<noteq> 1"
  shows "Conv_forward (shape_rt tr) (Conv_init c1 c2 (Pair kh kw) 1 (Some (Scalar 0)) 1 1 a)
           (Some (shp b c h w))
         = Some (shp b c2 (h - kh + 1) (w - kw + 1))"
  using assms
  by (auto simp add: Conv_forward_def Conv_init_def autopad_def conv2d_shape_def conv2d_ok_def
      conv_out_def batch_norm_shape_def nat_int_diff)

lemma Conv_shape_sq:
  assumes "c = c1" "0 < c1" "0 < c2" "0 < k" "k \<le> h" "k \<le> w"
    and "tr \<longrightarrow> b * (h - k + 1) * (w - k + 1) \<noteq> 1"
  shows "Conv_forward (shape_rt tr) (Conv_init c1 c2 (Scalar k) 1 (Some (Scalar 0)) 1 1 a)
           (Some (shp b c h w))
         = Some (shp b c2 (h - k + 1) (w - k + 1))"
  using assms
  by (auto simp add: Conv_forward_def Conv_init_def autopad_def conv2d_shape_def conv2d_ok_def
      conv_out_def batch_norm_shape_def nat_int_diff)

lemma PConv_init_parts:
  "pc_pad (PConv_init c1 c2 k s) = ((k, 0, 1, 0), (0, k, 0, 1), (0, 1, k, 0), (1, 0, 0, k))"
  "pc_cw (PConv_init c1 c2 k s) = Conv_init c1 (c2 div 4) (Pair 1 k) s (Some (Scalar 0)) 1 1 (ActBool True)"
  "pc_ch (PConv_init c1 c2 k s) = Conv_init c1 (c2 div 4) (Pair k 1) s (Some (Scalar 0)) 1 1 (ActBool True)"
  "pc_cat (PConv_init c1 c2 k s) = Conv_init c2 c2 (Scalar 2) 1 (Some (Scalar 0)) 1 1 (ActBool True)"
  by (simp_all add: PConv_init_def)

lemma PConv_parts:
  assumes c1: "0 < c1" and c2: "0 < c2" "4 dvd c2" and k: "0 < k"
    and x: "0 < b" "0 < h" "0 < w"
    and tr: "tr \<longrightarrow> b * h * w \<noteq> 1"
  shows "Conv_forward (shape_rt tr) (pc_cw (PConv_init c1 c2 k 1))
           (zero_pad2d (shape_rt tr) (k, 0, 1, 0) (Some (shp b c1 h w)))
         = Some (shp b (c2 div 4) (h + 1) (w + 1))"
    and "Conv_forward (shape_rt tr) (pc_cw (PConv_init c1 c2 k 1))
           (zero_pad2d (shape_rt tr) (0, k, 0, 1) (Some (shp b c1 h w)))
         = Some (shp b (c2 div 4) (h + 1) (w + 1))"
    and "Conv_forward (shape_rt tr) (pc_ch (PConv_init c1 c2 k 1))
           (zero_pad2d (shape_rt tr) (0, 1, k, 0) (Some (shp b c1 h w)))
         = Some (shp b (c2 div 4) (h + 1) (w + 1))"
    and "Conv_forward (shape_rt tr) (pc_ch (PConv_init c1 c2 k 1))
           (zero_pad2d (shape_rt tr) (1, 0, 0, k) (Some (shp b c1 h w)))
         = Some (shp b (c2 div 4) (h + 1) (w + 1))"
    and "cat1 (shape_rt tr) [Some (shp b (c2 div 4) (h + 1) (w + 1)), Some (shp b (c2 div 4) (h + 1) (w + 1)),
            Some (shp b (c2 div 4) (h + 1) (w + 1)), Some (shp b (c2 div 4) (h + 1) (w + 1))]
         = Some (shp b c2 (h + 1) (w + 1))"
    and "Conv_forward (shape_rt tr) (pc_cat (PConv_init c1 c2 k 1)) (Some (shp b c2 (h + 1) (w + 1)))
         = Some (shp b c2 h w)"
proof -
  from c2 obtain q where q: "c2 = 4 * q" "0 < q" by (auto elim: dvdE)
  have big: "b * (h + 1) * (w + 1) \<noteq> 1" using x by (cases b; cases h; cases w) auto
  have w0: "Conv_forward (shape_rt tr) (Conv_init c1 q (Pair 1 k) 1 (Some (Scalar 0)) 1 1 (ActBool True))
              (Some (shp b c1 (h + 1) (w + k))) = Some (shp b q (h + 1) (w + 1))"
    using Conv_shape[where c=c1 and ?c1.0=c1 and ?c2.0=q and kh=1 and kw=k and h="h+1" and w="w+k"
        and tr=tr and b=b and a="ActBool True"] c1 q k big by simp
  have h0: "Conv_forward (shape_rt tr) (Conv_init c1 q (Pair k 1) 1 (Some (Scalar 0)) 1 1 (ActBool True))
              (Some (shp b c1 (h + k) (w + 1))) = Some (shp b q (h + 1) (w + 1))"
    using Conv_shape[where c=c1 and ?c1.0=c1 and ?c2.0=q and kh=k and kw=1 and h="h+k" and w="w+1"
        and tr=tr and b=b and a="ActBool True"] c1 q k big by simp
  show "Conv_forward (shape_rt tr) (pc_cw (PConv_init c1 c2 k 1))
           (zero_pad2d (shape_rt tr) (k, 0, 1, 0) (Some (shp b c1 h w)))
         = Some (shp b (c2 div 4) (h + 1) (w + 1))"
    unfolding PConv_init_parts using w0 q by (simp add: zero_pad2d_shape_def)
  show "Conv_forward (shape_rt tr) (pc_cw (PConv_init c1 c2 k 1))
           (zero_pad2d (shape_rt tr) (0, k, 0, 1) (Some (shp b c1 h w)))
         = Some (shp b (c2 div 4) (h + 1) (w + 1))"
    unfolding PConv_init_parts using w0 q by (simp add: zero_pad2d_shape_def)
  show "Conv_forward (shape_rt tr) (pc_ch (PConv_init c1 c2 k 1))
           (zero_pad2d (shape_rt tr) (0, 1, k, 0) (Some (shp b c1 h w)))
         = Some (shp b (c2 div 4) (h + 1) (w + 1))"
    unfolding PConv_init_parts using h0 q by (simp add: zero_pad2d_shape_def)
  show "Conv_forward (shape_rt tr) (pc_ch (PConv_init c1 c2 k 1))
           (zero_pad2d (shape_rt tr) (1, 0, 0, k) (Some (shp b c1 h w)))
         = Some (shp b (c2 div 4) (h + 1) (w + 1))"
    unfolding PConv_init_parts using h0 q by (simp add: zero_pad2d_shape_def)
  show "cat1 (shape_rt tr) [Some (shp b (c2 div 4) (h + 1) (w + 1)), Some (shp b (c2 div 4) (h + 1) (w + 1)),
            Some (shp b (c2 div 4) (h + 1) (w + 1)), Some (shp b (c2 div 4) (h + 1) (w + 1))]
         = Some (shp b c2 (h + 1) (w + 1))"
    using q by (simp add: same_frame_def)
  show "Conv_forward (shape_rt tr) (pc_cat (PConv_init c1 c2 k 1)) (Some (shp b c2 (h + 1) (w + 1)))
         = Some (shp b c2 h w)"
    unfolding PConv_init_parts
    using Conv_shape_sq[where c=c2 and ?c1.0=c2 and ?c2.0=c2 and k=2 and h="h+1" and w="w+1"
        and tr=tr and b=b and a="ActBool True"] q x tr by simp
qed

lemma PConv_forward_unfold:
  "PConv_forward T (PConv_init c1 c2 k s) x =
     Conv_forward T (pc_cat (PConv_init c1 c2 k s))
       (cat1 T [Conv_forward T (pc_cw (PConv_init c1 c2 k s)) (zero_pad2d T (k, 0, 1, 0) x),
                Conv_forward T (pc_cw (PConv_init c1 c2 k s)) (zero_pad2d T (0, k, 0, 1) x),
                Conv_forward T (pc_ch (PConv_init c1 c2 k s)) (zero_pad2d T (0, 1, k, 0) x),
                Conv_forward T (pc_ch (PConv_init c1 c2 k s)) (zero_pad2d T (1, 0, 0, k) x)])"
  by (simp add: PConv_forward_def PConv_init_parts Let_def)

lemma PConv_shape:
  assumes c1: "0 < c1" and c2: "0 < c2" "4 dvd c2" and k: "0 < k"
    and x: "0 < b" "0 < h" "0 < w"
    and tr: "tr \<longrightarrow> b * h * w \<noteq> 1"
  shows "PConv_forward (shape_rt tr) (PConv_init c1 c2 k 1) (Some (shp b c1 h w))
         = Some (shp b c2 h w)"
  unfolding PConv_forward_unfold PConv_parts(1-4)[OF assms] PConv_parts(5)[OF assms]
  by (rule PConv_parts(6)[OF assms])

lemma ResNet_shape:
  assumes init: "ResNet_init i o' 1 pc = Some blk"
    and ch: "0 < i" "16 \<le> o'" "pc \<longrightarrow> 4 dvd o'"
    and x: "0 < b" "0 < h" "0 < w"
    and tr: "tr \<longrightarrow> b * h * w \<noteq> 1"
  shows "ResNet_forward (shape_rt tr) blk (Some (shp b i h w)) = Some (shp b o' h w)"
proof -
  obtain sa where sa: "SpatialAttention_init 7 = Some sa"
    by (simp add: SpatialAttention_init_def)
  have o0: "0 < o'" using ch by simp
  have res: "ResNet_residual (shape_rt tr) blk (Some (shp b i h w)) = Some (shp b o' h w)"
    using init sa o0 x tr ch(1)
      nn_Conv2d_shape[where c=i and cin=i and cout=o' and k=1 and s=1 and p=0 and h=h and w=w and b=b and bi=True]
      bn_shape[where tr=tr and b=b and h=h and w=w and c=o']
    by (auto simp add: ResNet_init_def ResNet_residual_def)
  have ca: "ChannelAttention_forward (shape_rt tr) (rn_ca blk) (Some (shp b o' h w)) = Some (shp b o' 1 1)"
    using init sa ChannelAttention_shape[OF ch(2) x(2,3), of tr 16 b] by (auto simp add: ResNet_init_def)
  have sat: "SpatialAttention_forward (shape_rt tr) (rn_sa blk) (Some (shp b o' h w)) = Some (shp b 1 h w)"
    using init sa SpatialAttention_shape[OF sa o0 x(2,3), of tr b] by (auto simp add: ResNet_init_def)
  have gate1: "broadcast_shape (shp b o' 1 1) (shp b o' h w) = Some (shp b o' h w)"
    by (simp add: broadcast_shape_def broadcast_dim_def)
  have gate2: "broadcast_shape (shp b 1 h w) (shp b o' h w) = Some (shp b o' h w)"
    by (simp add: broadcast_shape_def broadcast_dim_def)
  have sum: "iadd_shape (shp b o' h w) (shp b o' h w) = Some (shp b o' h w)"
    by (simp add: iadd_shape_def broadcast_shape_def broadcast_dim_def)
  have tail: "\<And>t. t = Some (shp b o' h w) \<Longrightarrow>
     activate (shape_rt tr) (rn_relu blk)
       (iadd (shape_rt tr)
          (mul (shape_rt tr) (SpatialAttention_forward (shape_rt tr) (rn_sa blk)
               (mul (shape_rt tr) (ChannelAttention_forward (shape_rt tr) (rn_ca blk) t) t))
             (mul (shape_rt tr) (ChannelAttention_forward (shape_rt tr) (rn_ca blk) t) t))
          (Some (shp b o' h w))) = Some (shp b o' h w)"
    using ca sat gate1 gate2 sum by simp
  show ?thesis
  proof (cases pc)
    case True
    then have d: "4 dvd o'" using ch by simp
    have c1: "conv_layer_forward (shape_rt tr) (rn_conv1 blk) (Some (shp b i h w)) = Some (shp b o' h w)"
      using init sa True PConv_shape[OF ch(1) o0 d _ x tr, of 4] by (auto simp add: ResNet_init_def)
    have c2: "conv_layer_forward (shape_rt tr) (rn_conv2 blk) (Some (shp b o' h w)) = Some (shp b o' h w)"
      using init sa True PConv_shape[OF o0 o0 d _ x tr, of 3] by (auto simp add: ResNet_init_def)
    have pcb: "rn_PC blk" using init sa True by (auto simp add: ResNet_init_def)
    show ?thesis
      unfolding ResNet_forward_def Let_def res using pcb c1 c2 tail by simp
  next
    case False
    have c1: "conv_layer_forward (shape_rt tr) (rn_conv1 blk) (Some (shp b i h w)) = Some (shp b o' h w)"
      using init sa False o0 x ch(1)
        nn_Conv2d_shape[where c=i and cin=i and cout=o' and k=3 and s=1 and p=1 and h=h and w=w and b=b and bi=True]
      by (auto simp add: ResNet_init_def)
    have c2: "conv_layer_forward (shape_rt tr) (rn_conv2 blk) (Some (shp b o' h w)) = Some (shp b o' h w)"
      using init sa False o0 x
        nn_Conv2d_shape[where c=o' and cin=o' and cout=o' and k=3 and s=1 and p=1 and h=h and w=w and b=b and bi=True]
      by (auto simp add: ResNet_init_def)
    have b1: "batch_norm (shape_rt tr) (rn_bn1 blk) (Some (shp b o' h w)) = Some (shp b o' h w)"
      using init sa bn_shape[OF tr, of o'] by (auto simp add: ResNet_init_def)
    have b2: "batch_norm (shape_rt tr) (rn_bn2 blk) (Some (shp b o' h w)) = Some (shp b o' h w)"
      using init sa bn_shape[OF tr, of o'] by (auto simp add: ResNet_init_def)
    have pcb: "\<not> rn_PC blk" using init sa False by (auto simp add: ResNet_init_def)
    show ?thesis
      unfolding ResNet_forward_def Let_def res using pcb c1 c2 b1 b2 tail
      by simp
  qed
qed

lemma ResNet_init_total: "\<exists>blk. ResNet_init i o' s pc = Some blk"
  by (simp add: ResNet_init_def SpatialAttention_init_def)

lemma make_layer_loop_eq:
  assumes "ResNet_init o' o' 1 False = Some r"
  shows "make_layer_loop n o' acc = Some (acc @ replicate n r)"
  using assms
proof (induction n arbitrary: acc)
  case 0
  then show ?case by simp
next
  case (Suc n)
  then show ?case by (simp add: replicate_app_Cons_same)
qed

lemma make_layer_eq:
  assumes "ResNet_init i o' 1 pc = Some f" "ResNet_init o' o' 1 False = Some r"
  shows "make_layer i o' n pc = Some (f # replicate (n - 1) r)"
  using assms make_layer_loop_eq[OF assms(2), of "n - 1" "[f]"]
  by (simp add: make_layer_def)

lemma Sequential_replicate:
  assumes "ResNet_forward T r x = x"
  shows "Sequential_forward T (replicate n r) x = x"
  using assms by (induction n) (simp_all add: Sequential_forward_def)

lemma Sequential_Cons:
  "Sequential_forward T (f # bs) x = Sequential_forward T bs (ResNet_forward T f x)"
  by (simp add: Sequential_forward_def)

lemma stage_shape:
  assumes mk: "make_layer i o' n pc = Some bs"
    and ch: "0 < i" "16 \<le> o'" "pc \<longrightarrow> 4 dvd o'"
    and x: "0 < b" "0 < h" "0 < w"
    and tr: "tr \<longrightarrow> b * h * w \<noteq> 1"
  shows "Sequential_forward (shape_rt tr) bs (Some (shp b i h w)) = Some (shp b o' h w)"
proof -
  obtain f where f: "ResNet_init i o' 1 pc = Some f" using ResNet_init_total by blast
  obtain r where r: "ResNet_init o' o' 1 False = Some r" using ResNet_init_total by blast
  have bs: "bs = f # replicate (n - 1) r" using mk make_layer_eq[OF f r, of n] by simp
  have o0: "0 < o'" using ch by simp
  have 1: "ResNet_forward (shape_rt tr) f (Some (shp b i h w)) = Some (shp b o' h w)"
    by (rule ResNet_shape[OF f ch x tr])
  have 2: "ResNet_forward (shape_rt tr) r (Some (shp b o' h w)) = Some (shp b o' h w)"
    by (rule ResNet_shape[OF r o0 ch(2) _ x tr]) simp
  show ?thesis
    unfolding bs Sequential_Cons 1 by (rule Sequential_replicate[OF 2])
qed

lemma pool_shape:
  assumes "0 < n" "0 < m"
  shows "max_pool2d_shape \<lparr>pool_kernel = 2, pool_stride = 2\<rparr> (shp b c (2 * n) (2 * m))
         = Some (shp b c n m)"
proof -
  have "(2 * n - 2) div 2 + 1 = n" "(2 * m - 2) div 2 + 1 = m" using assms by auto
  then show ?thesis using assms by (simp add: max_pool2d_shape_def)
qed

lemma up_shape:
  assumes "0 < n" "0 < m" "0 < f"
  shows "upsample_shape (nn_Upsample f) (shp b c n m) = Some (shp b c (f * n) (f * m))"
  using assms by (simp add: upsample_shape_def nn_Upsample_def mult.commute)

lemma many_at_double:
  assumes "0 < (b::nat)" "0 < (n::nat)" "0 < (m::nat)"
  shows "tr \<longrightarrow> b * (2 * n) * (2 * m) \<noteq> 1"
  using assms by (cases b; cases n; cases m) auto


lemma MSHNet_init_fields:
  assumes "MSHNet_init ic pc = Some net"
  shows "make_layer 16 16 1 pc = Some (encoder_0 net)"
    "make_layer 16 32 2 False = Some (encoder_1 net)"
    "make_layer 32 64 2 False = Some (encoder_2 net)"
    "make_layer 64 128 2 False = Some (encoder_3 net)"
    "make_layer 128 256 2 False = Some (middle_layer net)"
    "make_layer 384 128 2 False = Some (decoder_3 net)"
    "make_layer 192 64 2 False = Some (decoder_2 net)"
    "make_layer 96 32 2 False = Some (decoder_1 net)"
    "make_layer 48 16 1 False = Some (decoder_0 net)"
    "pool net = \<lparr>pool_kernel = 2, pool_stride = 2\<rparr>"
    "up net = nn_Upsample 2" "up_4 net = nn_Upsample 4" "up_8 net = nn_Upsample 8"
    "up_16 net = nn_Upsample 4"
    "conv_init net = nn_Conv2d ic 16 1 1 0 True"
    "output_0 net = nn_Conv2d 16 1 1 1 0 True"
    "output_1 net = nn_Conv2d 32 1 1 1 0 True"
    "output_2 net = nn_Conv2d 64 1 1 1 0 True"
    "output_3 net = nn_Conv2d 128 1 1 1 0 True"
    "final net = nn_Conv2d 4 1 3 1 1 True"
  using assms
  by (auto simp add: MSHNet_init_def param_channels_def param_blocks_def bind_eq_Some_conv)


lemma MSHNet_frame_shape:
  assumes init: "MSHNet_init ic pc = Some net"
    and x: "0 < ic" "0 < b" "0 < h" "0 < w"
    and tr: "tr \<longrightarrow> b * h * w \<noteq> 1"
  shows "MSHNet_forward_frame (shape_rt tr) net (Some (shp b ic (16 * h) (16 * w))) flag =
     \<lparr> x_e0 = Some (shp b 16 (16 * h) (16 * w)),
       x_e1 = Some (shp b 32 (8 * h) (8 * w)),
       x_e2 = Some (shp b 64 (4 * h) (4 * w)),
       x_e3 = Some (shp b 128 (2 * h) (2 * w)),
       x_m = Some (shp b 256 h w),
       x_d3 = Some (shp b 128 (2 * h) (2 * w)),
       x_d2 = Some (shp b 64 (4 * h) (4 * w)),
       x_d1 = Some (shp b 32 (8 * h) (8 * w)),
       x_d0 = Some (shp b 16 (16 * h) (16 * w)),
       returned =
         (if flag
          then ([Some (shp b 1 (16 * h) (16 * w)), Some (shp b 1 (8 * h) (8 * w)),
                 Some (shp b 1 (4 * h) (4 * w)), Some (shp b 1 (2 * h) (2 * w))],
                Some (shp b 1 (16 * h) (16 * w)))
          else ([], Some (shp b 1 (16 * h) (16 * w)))) \<rparr>"
proof -
  note f = MSHNet_init_fields[OF init]
  let ?T = "shape_rt tr"
  have g16: "tr \<longrightarrow> b * (16 * h) * (16 * w) \<noteq> 1"
    using many_at_double[OF x(2), of "8 * h" "8 * w" tr] x by simp
  have g8: "tr \<longrightarrow> b * (8 * h) * (8 * w) \<noteq> 1"
    using many_at_double[OF x(2), of "4 * h" "4 * w" tr] x by simp
  have g4: "tr \<longrightarrow> b * (4 * h) * (4 * w) \<noteq> 1"
    using many_at_double[OF x(2), of "2 * h" "2 * w" tr] x by simp
  have g2: "tr \<longrightarrow> b * (2 * h) * (2 * w) \<noteq> 1"
    using many_at_double[OF x(2), of h w tr] x by simp
  have c0: "conv2d_shape (conv_init net) (shp b ic (16 * h) (16 * w)) = Some (shp b 16 (16 * h) (16 * w))"
    unfolding f using nn_Conv2d_shape[where c=ic and cin=ic and cout=16 and k=1 and s=1 and p=0
        and h="16 * h" and w="16 * w" and b=b and bi=True] x by simp
  have e0: "Sequential_forward ?T (encoder_0 net) (Some (shp b 16 (16 * h) (16 * w))) = Some (shp b 16 (16 * h) (16 * w))"
    by (rule stage_shape[OF f(1) _ _ _ x(2) _ _ g16]) (use x in simp_all)
  have p0: "max_pool2d_shape (pool net) (shp b 16 (16 * h) (16 * w)) = Some (shp b 16 (8 * h) (8 * w))"
    unfolding f using pool_shape[of "8 * h" "8 * w" b 16] x by simp
  have e1: "Sequential_forward ?T (encoder_1 net) (Some (shp b 16 (8 * h) (8 * w))) = Some (shp b 32 (8 * h) (8 * w))"
    by (rule stage_shape[OF f(2) _ _ _ x(2) _ _ g8]) (use x in simp_all)
  have p1: "max_pool2d_shape (pool net) (shp b 32 (8 * h) (8 * w)) = Some (shp b 32 (4 * h) (4 * w))"
    unfolding f using pool_shape[of "4 * h" "4 * w" b 32] x by simp
  have e2: "Sequential_forward ?T (encoder_2 net) (Some (shp b 32 (4 * h) (4 * w))) = Some (shp b 64 (4 * h) (4 * w))"
    by (rule stage_shape[OF f(3) _ _ _ x(2) _ _ g4]) (use x in simp_all)
  have p2: "max_pool2d_shape (pool net) (shp b 64 (4 * h) (4 * w)) = Some (shp b 64 (2 * h) (2 * w))"
    unfolding f using pool_shape[of "2 * h" "2 * w" b 64] x by simp
  have e3: "Sequential_forward ?T (encoder_3 net) (Some (shp b 64 (2 * h) (2 * w))) = Some (shp b 128 (2 * h) (2 * w))"
    by (rule stage_shape[OF f(4) _ _ _ x(2) _ _ g2]) (use x in simp_all)
  have p3: "max_pool2d_shape (pool net) (shp b 128 (2 * h) (2 * w)) = Some (shp b 128 h w)"
    unfolding f using pool_shape[of h w b 128] x by simp
  have m: "Sequential_forward ?T (middle_layer net) (Some (shp b 128 h w)) = Some (shp b 256 h w)"
    by (rule stage_shape[OF f(5) _ _ _ x(2,3,4) tr]) simp_all
  have u3: "upsample_shape (up net) (shp b 256 h w) = Some (shp b 256 (2 * h) (2 * w))"
    unfolding f using up_shape[of h w 2 b 256] x by simp
  have d3: "Sequential_forward ?T (decoder_3 net) (Some (shp b 384 (2 * h) (2 * w))) = Some (shp b 128 (2 * h) (2 * w))"
    by (rule stage_shape[OF f(6) _ _ _ x(2) _ _ g2]) (use x in simp_all)
  have u2: "upsample_shape (up net) (shp b 128 (2 * h) (2 * w)) = Some (shp b 128 (4 * h) (4 * w))"
    unfolding f using up_shape[of "2 * h" "2 * w" 2 b 128] x by simp
  have d2: "Sequential_forward ?T (decoder_2 net) (Some (shp b 192 (4 * h) (4 * w))) = Some (shp b 64 (4 * h) (4 * w))"
    by (rule stage_shape[OF f(7) _ _ _ x(2) _ _ g4]) (use x in simp_all)
  have u1: "upsample_shape (up net) (shp b 64 (4 * h) (4 * w)) = Some (shp b 64 (8 * h) (8 * w))"
    unfolding f using up_shape[of "4 * h" "4 * w" 2 b 64] x by simp
  have d1: "Sequential_forward ?T (decoder_1 net) (Some (shp b 96 (8 * h) (8 * w))) = Some (shp b 32 (8 * h) (8 * w))"
    by (rule stage_shape[OF f(8) _ _ _ x(2) _ _ g8]) (use x in simp_all)
  have u0: "upsample_shape (up net) (shp b 32 (8 * h) (8 * w)) = Some (shp b 32 (16 * h) (16 * w))"
    unfolding f using up_shape[of "8 * h" "8 * w" 2 b 32] x by simp
  have d0: "Sequential_forward ?T (decoder_0 net) (Some (shp b 48 (16 * h) (16 * w))) = Some (shp b 16 (16 * h) (16 * w))"
    by (rule stage_shape[OF f(9) _ _ _ x(2) _ _ g16]) (use x in simp_all)
  have o0: "conv2d_shape (output_0 net) (shp b 16 (16 * h) (16 * w)) = Some (shp b 1 (16 * h) (16 * w))"
    unfolding f using nn_Conv2d_shape[where c=16 and cin=16 and cout=1 and k=1 and s=1 and p=0
        and h="16 * h" and w="16 * w" and b=b and bi=True] x by simp
  have o1: "conv2d_shape (output_1 net) (shp b 32 (8 * h) (8 * w)) = Some (shp b 1 (8 * h) (8 * w))"
    unfolding f using nn_Conv2d_shape[where c=32 and cin=32 and cout=1 and k=1 and s=1 and p=0
        and h="8 * h" and w="8 * w" and b=b and bi=True] x by simp
  have o2: "conv2d_shape (output_2 net) (shp b 64 (4 * h) (4 * w)) = Some (shp b 1 (4 * h) (4 * w))"
    unfolding f using nn_Conv2d_shape[where c=64 and cin=64 and cout=1 and k=1 and s=1 and p=0
        and h="4 * h" and w="4 * w" and b=b and bi=True] x by simp
  have o3: "conv2d_shape (output_3 net) (shp b 128 (2 * h) (2 * w)) = Some (shp b 1 (2 * h) (2 * w))"
    unfolding f using nn_Conv2d_shape[where c=128 and cin=128 and cout=1 and k=1 and s=1 and p=0
        and h="2 * h" and w="2 * w" and b=b and bi=True] x by simp
  have v1: "upsample_shape (up net) (shp b 1 (8 * h) (8 * w)) = Some (shp b 1 (16 * h) (16 * w))"
    unfolding f using up_shape[of "8 * h" "8 * w" 2 b 1] x by simp
  have v2: "upsample_shape (up_4 net) (shp b 1 (4 * h) (4 * w)) = Some (shp b 1 (16 * h) (16 * w))"
    unfolding f using up_shape[of "4 * h" "4 * w" 4 b 1] x by simp
  have v3: "upsample_shape (up_8 net) (shp b 1 (2 * h) (2 * w)) = Some (shp b 1 (16 * h) (16 * w))"
    unfolding f using up_shape[of "2 * h" "2 * w" 8 b 1] x by simp
  have fin: "conv2d_shape (final net) (shp b (1 + (1 + (1 + 1))) (16 * h) (16 * w)) = Some (shp b 1 (16 * h) (16 * w))"
    unfolding f using nn_Conv2d_shape[where c="1 + (1 + (1 + 1))" and cin=4 and cout=1 and k=3 and s=1 and p=1
        and h="16 * h" and w="16 * w" and b=b and bi=True] x by simp
  show ?thesis
    unfolding MSHNet_forward_frame_def Let_def
    using v1 v2 v3 fin
    by (simp add: c0 e0 p0 e1 p1 e2 p2 e3 p3 m u3 d3 u2 d2 u1 d1 u0 d0 o0 o1 o2 o3 same_frame_def)
qed

lemma MSHNet_init_total: "\<exists>net. MSHNet_init ic pc = Some net"
proof -
  have mk: "\<exists>bs. make_layer i o' n p = Some bs" for i o' n p
  proof -
    obtain f where f: "ResNet_init i o' 1 p = Some f" using ResNet_init_total by blast
    obtain r where r: "ResNet_init o' o' 1 False = Some r" using ResNet_init_total by blast
    show ?thesis using make_layer_eq[OF f r] by blast
  qed
  obtain e0 where e0: "make_layer 16 16 1 pc = Some e0" using mk by blast
  obtain e1 where e1: "make_layer 16 32 2 False = Some e1" using mk by blast
  obtain e2 where e2: "make_layer 32 64 2 False = Some e2" using mk by blast
  obtain e3 where e3: "make_layer 64 128 2 False = Some e3" using mk by blast
  obtain m where m: "make_layer 128 256 2 False = Some m" using mk by blast
  obtain d3 where d3: "make_layer 384 128 2 False = Some d3" using mk by blast
  obtain d2 where d2: "make_layer 192 64 2 False = Some d2" using mk by blast
  obtain d1 where d1: "make_layer 96 32 2 False = Some d1" using mk by blast
  obtain d0 where d0: "make_layer 48 16 1 False = Some d0" using mk by blast
  show ?thesis
    using e0 d0
    by (simp add: MSHNet_init_def param_channels_def param_blocks_def e1 e2 e3 m d3 d2 d1)
qed

lemma div16:
  assumes "H = 16 * (h::nat)"
  shows "H div 2 = 8 * h" "H div 4 = 4 * h" "H div 8 = 2 * h" "H div 16 = h"
  using assms by simp_all

section \<open>Float32 rounding and the sigmoid\<close>













section \<open>Values of the gates on one pixel\<close>

lemma pixel_simps [simp]:
  "conv2d (pixel_rt W) m t = t \<bind> pixel_conv2d W m"
  "activate (pixel_rt W) a t = t \<bind> (\<lambda>xs. those (map (act_f32 a) xs))"
  "adaptive_avg_pool2d (pixel_rt W) n t = t \<bind> (\<lambda>xs. if n = 1 \<and> xs \<noteq> [] then Some xs else None)"
  "adaptive_max_pool2d (pixel_rt W) n t = t \<bind> (\<lambda>xs. if n = 1 \<and> xs \<noteq> [] then Some xs else None)"
  "cat1 (pixel_rt W) ts = those ts \<bind> (\<lambda>xss. if xss = [] then None else Some (concat xss))"
  "mean1 (pixel_rt W) t = t \<bind> (\<lambda>xs. if xs = [] then None
                                   else map_option (\<lambda>v. [v]) (f32 (sum_list xs / real (length xs))))"
  "max1 (pixel_rt W) t = t \<bind> (\<lambda>xs. if xs = [] then None else Some [Max (set xs)])"
  "mul (pixel_rt W) = lift2 (pixel_binop (*))"
  "add (pixel_rt W) = lift2 (pixel_binop (+))"
  by (simp_all add: pixel_rt_def)












section \<open>The claims\<close>

subsection \<open>Output shapes of the network\<close>

text \<open>
  Claim C1, as amended. Take an input of shape \<open>(b, ic, H, W)\<close> for a network built for
  \<open>ic\<close> input channels, with every extent positive and \<open>H\<close>, \<open>W\<close> divisible by 16, and,
  when the module is in training mode, with more than one value per channel at the
  bottleneck (\<open>b * (H/16) * (W/16) \<noteq> 1\<close>). Then \<^verbatim>\<open>forward\<close> with the supervision
  flag set returns four one-channel maps of spatial sizes \<open>H \<times> W\<close>, \<open>H/2 \<times> W/2\<close>,
  \<open>H/4 \<times> W/4\<close>, \<open>H/8 \<times> W/8\<close> and a fused map of shape \<open>(b, 1, H, W)\<close>, with or without
  partial convolutions in the first stage.
\<close>

theorem supervision_output_shapes:
  assumes "0 < ic" "0 < b" "0 < H" "0 < W" "16 dvd H" "16 dvd W"
    and "training \<longrightarrow> b * (H div 16) * (W div 16) \<noteq> 1"
  shows "MSHNet_run training ic PC (shp b ic H W) True =
           Some ([shp b 1 H W, shp b 1 (H div 2) (W div 2),
                  shp b 1 (H div 4) (W div 4), shp b 1 (H div 8) (W div 8)],
                 shp b 1 H W)"
proof -
  obtain h where h: "H = 16 * h" using assms(5) by (auto elim: dvdE)
  obtain w where w: "W = 16 * w" using assms(6) by (auto elim: dvdE)
  obtain net where net: "MSHNet_init ic PC = Some net" using MSHNet_init_total by blast
  have pos: "0 < h" "0 < w" using assms(3,4) h w by simp_all
  have tr: "training \<longrightarrow> b * h * w \<noteq> 1" using assms(7) h w by simp
  note fr = MSHNet_frame_shape[OF net assms(1,2) pos tr, of True]
  show ?thesis
    unfolding MSHNet_run_def net MSHNet_call_def MSHNet_forward_def h w div16[OF refl]
    by (simp add: fr)
qed

text \<open>
  The end-to-end scenario of the specification, input \<open>(1, 3, 256, 256)\<close>, in training
  mode without partial convolutions and in evaluation mode with them.
\<close>

theorem supervision_output_shapes_witness:
  "MSHNet_run True 3 False (shp 1 3 256 256) True =
     Some ([shp 1 1 256 256, shp 1 1 128 128, shp 1 1 64 64, shp 1 1 32 32], shp 1 1 256 256)
   \<and> MSHNet_run False 3 True (shp 1 3 256 256) True =
     Some ([shp 1 1 256 256, shp 1 1 128 128, shp 1 1 64 64, shp 1 1 32 32], shp 1 1 256 256)"
  using supervision_output_shapes[of 3 1 256 256 True False]
    supervision_output_shapes[of 3 1 256 256 False True]
  by simp

text \<open>
  C1 as stated fails on the input \<open>(1, 3, 16, 16)\<close> of a fresh network (training mode):
  the bottleneck sees a single value per channel and its batch normalisation raises.
\<close>

theorem supervision_single_value_counterexample:
  "MSHNet_init 3 False \<noteq> None \<and> MSHNet_run True 3 False (shp 1 3 16 16) True = None"
  by code_simp


text \<open>
  Claim C2, as amended. With the supervision flag unset, \<^verbatim>\<open>forward\<close> returns the empty
  auxiliary list and the result of one convolution, \<^verbatim>\<open>output_0\<close>, of kernel \<open>1 \<times> 1\<close> and
  one output channel, applied to the finest decoder output \<^verbatim>\<open>x_d0\<close>. On an input of
  shape \<open>(b, ic, H, W)\<close> as in C1 (positive extents, \<open>H\<close> and \<open>W\<close> divisible by 16, more
  than one value per channel at the bottleneck in training mode) the call returns, and
  the map has shape \<open>(b, 1, H, W)\<close>.
\<close>

theorem inference_output:
  assumes init: "MSHNet_init ic PC = Some net"
    and x: "0 < ic" "0 < b" "0 < H" "0 < W" "16 dvd H" "16 dvd W"
    and tr: "training \<longrightarrow> b * (H div 16) * (W div 16) \<noteq> 1"
  shows "MSHNet_forward T net x False =
           ([], conv2d T (output_0 net) (x_d0 (MSHNet_forward_frame T net x False)))
         \<and> kernel_size (output_0 net) = (1, 1) \<and> out_channels (output_0 net) = 1
         \<and> MSHNet_call training net (shp b ic H W) False = Some ([], shp b 1 H W)"
proof -
  obtain h where h: "H = 16 * h" using x(5) by (auto elim: dvdE)
  obtain w where w: "W = 16 * w" using x(6) by (auto elim: dvdE)
  have pos: "0 < h" "0 < w" using x(3,4) h w by simp_all
  have tr': "training \<longrightarrow> b * h * w \<noteq> 1" using tr h w by simp
  note fr = MSHNet_frame_shape[OF init x(1,2) pos tr', of False]
  have 1: "MSHNet_forward T net x False =
           ([], conv2d T (output_0 net) (x_d0 (MSHNet_forward_frame T net x False)))"
    by (simp add: MSHNet_forward_def MSHNet_forward_frame_def Let_def)
  have 2: "kernel_size (output_0 net) = (1, 1) \<and> out_channels (output_0 net) = 1"
    by (simp add: MSHNet_init_fields(16)[OF init] nn_Conv2d_def)
  have 3: "MSHNet_call training net (shp b ic H W) False = Some ([], shp b 1 H W)"
    unfolding MSHNet_call_def MSHNet_forward_def h w by (simp add: fr)
  show ?thesis using 1 2 3 by blast
qed

text \<open>The second end-to-end scenario: input \<open>(1, 3, 256, 256)\<close>, flag unset.\<close>

theorem inference_output_witness:
  "\<exists>net. MSHNet_init 3 False = Some net
     \<and> fst (MSHNet_forward (shape_rt True) net (Some (shp 1 3 256 256)) False) = []
     \<and> MSHNet_call True net (shp 1 3 256 256) False = Some ([], shp 1 1 256 256)"
proof -
  obtain net where net: "MSHNet_init 3 False = Some net" using MSHNet_init_total by blast
  note w = inference_output[OF net, where b=1 and H=256 and W=256 and training=True
      and T="shape_rt True" and x="Some (shp 1 3 256 256)"]
  have "fst (MSHNet_forward (shape_rt True) net (Some (shp 1 3 256 256)) False) = []
     \<and> MSHNet_call True net (shp 1 3 256 256) False = Some ([], shp 1 1 256 256)"
    using w by simp
  then show ?thesis using net by blast
qed

text \<open>
  C2 as stated fails on the same input \<open>(1, 3, 16, 16)\<close> in training mode, for the same
  reason as C1.
\<close>

theorem inference_single_value_counterexample:
  "MSHNet_init 3 False \<noteq> None \<and> MSHNet_run True 3 False (shp 1 3 16 16) False = None"
  by code_simp

subsection \<open>The partial convolution\<close>

text \<open>
  Claim C3, as amended. Let \<open>c2\<close> be a positive multiple of 4, \<open>k\<close> positive, and the
  input of shape \<open>(b, c1, h, w)\<close> with a positive channel count \<open>c1\<close>, positive extents and,
  in training mode, more than one value per channel. \<^verbatim>\<open>PConv(c1, c2, k, 1)\<close> applies the one convolution \<^verbatim>\<open>cw\<close> of
  kernel \<open>1 \<times> k\<close> to the first two padded variants and the one convolution \<^verbatim>\<open>ch\<close> of
  kernel \<open>k \<times> 1\<close> to the other two; each result has \<open>c2 div 4\<close> channels and the same
  spatial size \<open>(h + 1) \<times> (w + 1)\<close>; their concatenation has \<open>c2\<close> channels; the final
  \<open>2 \<times> 2\<close> convolution of stride 1 and no padding gives the shape \<open>(b, c2, h, w)\<close>.
\<close>

theorem partial_conv_shapes:
  assumes c1: "0 < c1" and c2: "0 < c2" "4 dvd c2" and k: "0 < k"
    and x: "0 < b" "0 < h" "0 < w"
    and tr: "training \<longrightarrow> b * h * w \<noteq> 1"
  shows "kernel_size (cv_conv (pc_cw (PConv_init c1 c2 k 1))) = (1, k)
       \<and> out_channels (cv_conv (pc_cw (PConv_init c1 c2 k 1))) = c2 div 4
       \<and> kernel_size (cv_conv (pc_ch (PConv_init c1 c2 k 1))) = (k, 1)
       \<and> out_channels (cv_conv (pc_ch (PConv_init c1 c2 k 1))) = c2 div 4
       \<and> kernel_size (cv_conv (pc_cat (PConv_init c1 c2 k 1))) = (2, 2)
       \<and> stride (cv_conv (pc_cat (PConv_init c1 c2 k 1))) = 1
       \<and> padding (cv_conv (pc_cat (PConv_init c1 c2 k 1))) = (0, 0)
       \<and> out_channels (cv_conv (pc_cat (PConv_init c1 c2 k 1))) = c2
       \<and> PConv_forward T (PConv_init c1 c2 k 1) t =
           Conv_forward T (pc_cat (PConv_init c1 c2 k 1))
             (cat1 T [Conv_forward T (pc_cw (PConv_init c1 c2 k 1)) (zero_pad2d T (k, 0, 1, 0) t),
                      Conv_forward T (pc_cw (PConv_init c1 c2 k 1)) (zero_pad2d T (0, k, 0, 1) t),
                      Conv_forward T (pc_ch (PConv_init c1 c2 k 1)) (zero_pad2d T (0, 1, k, 0) t),
                      Conv_forward T (pc_ch (PConv_init c1 c2 k 1)) (zero_pad2d T (1, 0, 0, k) t)])
       \<and> Conv_forward (shape_rt training) (pc_cw (PConv_init c1 c2 k 1))
             (zero_pad2d (shape_rt training) (k, 0, 1, 0) (Some (shp b c1 h w)))
           = Some (shp b (c2 div 4) (h + 1) (w + 1))
       \<and> Conv_forward (shape_rt training) (pc_cw (PConv_init c1 c2 k 1))
             (zero_pad2d (shape_rt training) (0, k, 0, 1) (Some (shp b c1 h w)))
           = Some (shp b (c2 div 4) (h + 1) (w + 1))
       \<and> Conv_forward (shape_rt training) (pc_ch (PConv_init c1 c2 k 1))
             (zero_pad2d (shape_rt training) (0, 1, k, 0) (Some (shp b c1 h w)))
           = Some (shp b (c2 div 4) (h + 1) (w + 1))
       \<and> Conv_forward (shape_rt training) (pc_ch (PConv_init c1 c2 k 1))
             (zero_pad2d (shape_rt training) (1, 0, 0, k) (Some (shp b c1 h w)))
           = Some (shp b (c2 div 4) (h + 1) (w + 1))
       \<and> cat1 (shape_rt training)
             [Some (shp b (c2 div 4) (h + 1) (w + 1)), Some (shp b (c2 div 4) (h + 1) (w + 1)),
              Some (shp b (c2 div 4) (h + 1) (w + 1)), Some (shp b (c2 div 4) (h + 1) (w + 1))]
           = Some (shp b c2 (h + 1) (w + 1))
       \<and> PConv_forward (shape_rt training) (PConv_init c1 c2 k 1) (Some (shp b c1 h w))
           = Some (shp b c2 h w)"
proof -
  have cfg: "kernel_size (cv_conv (pc_cw (PConv_init c1 c2 k 1))) = (1, k)"
    "out_channels (cv_conv (pc_cw (PConv_init c1 c2 k 1))) = c2 div 4"
    "kernel_size (cv_conv (pc_ch (PConv_init c1 c2 k 1))) = (k, 1)"
    "out_channels (cv_conv (pc_ch (PConv_init c1 c2 k 1))) = c2 div 4"
    "kernel_size (cv_conv (pc_cat (PConv_init c1 c2 k 1))) = (2, 2)"
    "stride (cv_conv (pc_cat (PConv_init c1 c2 k 1))) = 1"
    "padding (cv_conv (pc_cat (PConv_init c1 c2 k 1))) = (0, 0)"
    "out_channels (cv_conv (pc_cat (PConv_init c1 c2 k 1))) = c2"
    by (simp_all add: PConv_init_def Conv_init_def autopad_def)
  note parts = PConv_parts(1-5)[OF assms]
  note whole = PConv_shape[OF assms]
  show ?thesis
    using cfg PConv_forward_unfold[of T c1 c2 k 1 t] parts(1-5) whole by blast
qed

text \<open>The scenario of the specification: \<open>c1 = 16\<close>, \<open>c2 = 32\<close>, \<open>k = 4\<close> on a \<open>64 \<times> 64\<close> input.\<close>

theorem partial_conv_shapes_witness:
  "PConv_forward (shape_rt True) (PConv_init 16 32 4 1) (Some (shp 1 16 64 64))
     = Some (shp 1 32 64 64)
   \<and> Conv_forward (shape_rt True) (pc_cw (PConv_init 16 32 4 1))
        (zero_pad2d (shape_rt True) (4, 0, 1, 0) (Some (shp 1 16 64 64)))
     = Some (shp 1 8 65 65)"
  using partial_conv_shapes[where ?c2.0=32 and k=4 and b=1 and h=64 and w=64 and training=True
      and ?c1.0=16 and T="shape_rt False" and t=None]
  by simp

text \<open>
  C3 as stated fails on an input of shape \<open>(1, 16, 1, 1)\<close> in training mode: the fused
  map is \<open>(1, 32, 1, 1)\<close>, a single value per channel, and the normalisation inside
  \<^verbatim>\<open>self.cat\<close> raises.
\<close>

theorem partial_conv_single_value_counterexample:
  "PConv_forward (shape_rt True) (PConv_init 16 32 4 1) (Some (shp 1 16 1 1)) = None"
  by code_simp

lemma ResNet_init_eq:
  "ResNet_init i o' s pc = Some blk \<Longrightarrow>
   blk = \<lparr> rn_PC = pc,
           rn_conv1 = (if pc then Partial (PConv_init i o' 4 s)
                       else Standard (nn_Conv2d i o' 3 s 1 True)),
           rn_conv2 = (if pc then Partial (PConv_init o' o' 3 s)
                       else Standard (nn_Conv2d o' o' 3 1 1 True)),
           rn_bn1 = \<lparr> num_features = o' \<rparr>,
           rn_relu = ReLU,
           rn_bn2 = \<lparr> num_features = o' \<rparr>,
           rn_shortcut = (if s \<noteq> 1 \<or> o' \<noteq> i
                          then Some (nn_Conv2d i o' 1 s 0 True, \<lparr> num_features = o' \<rparr>)
                          else None),
           rn_ca = ChannelAttention_init o' 16,
           rn_sa = \<lparr> sa_conv1 = nn_Conv2d 2 1 7 1 3 False, sa_sigmoid = Sigmoid \<rparr> \<rparr>"
  by (auto simp add: ResNet_init_def SpatialAttention_init_def)

subsection \<open>The residual block\<close>

text \<open>
  Claim C4, as amended. The shortcut of a block is absent exactly when the stride is 1
  and the channel counts are equal; the residual is then the input itself, and otherwise
  it is a \<open>1 \<times> 1\<close> convolution of the given stride to \<open>out_channels\<close> followed by batch
  normalisation. A block with equal channel counts and stride 1 keeps the shape of its
  input provided the channel count is at least 16 (so that the attention bottleneck
  \<open>out_channels div 16\<close> has a channel), the input has that many channels and positive
  extents and, in training mode, more than one value per channel; for a block with
  partial convolutions the channel count is a multiple of 4, as the partial convolution
  requires.
\<close>

theorem residual_shortcut:
  assumes init: "ResNet_init in_ch out_ch strd PC = Some blk"
  shows "(rn_shortcut blk = None \<longleftrightarrow> strd = 1 \<and> in_ch = out_ch)
       \<and> ResNet_residual T blk x =
           (if strd = 1 \<and> in_ch = out_ch then x
            else batch_norm T \<lparr>num_features = out_ch\<rparr>
                   (conv2d T (nn_Conv2d in_ch out_ch 1 strd 0 True) x))
       \<and> (strd = 1 \<and> in_ch = out_ch \<and> 16 \<le> out_ch \<and> (PC \<longrightarrow> 4 dvd out_ch)
            \<and> 0 < b \<and> 0 < h \<and> 0 < w \<and> (training \<longrightarrow> b * h * w \<noteq> 1)
          \<longrightarrow> ResNet_forward (shape_rt training) blk (Some (shp b in_ch h w))
                = Some (shp b in_ch h w))"
proof -
  note blk = ResNet_init_eq[OF init]
  have 1: "rn_shortcut blk = None \<longleftrightarrow> strd = 1 \<and> in_ch = out_ch"
    by (subst blk) auto
  have 2: "ResNet_residual T blk x =
           (if strd = 1 \<and> in_ch = out_ch then x
            else batch_norm T \<lparr>num_features = out_ch\<rparr>
                   (conv2d T (nn_Conv2d in_ch out_ch 1 strd 0 True) x))"
    unfolding ResNet_residual_def by (subst blk) auto
  have 3: "ResNet_forward (shape_rt training) blk (Some (shp b in_ch h w)) = Some (shp b in_ch h w)"
    if "strd = 1" "in_ch = out_ch" "16 \<le> out_ch" "PC \<longrightarrow> 4 dvd out_ch"
      "0 < b" "0 < h" "0 < w" "training \<longrightarrow> b * h * w \<noteq> 1"
    using ResNet_shape[of in_ch out_ch PC blk b h w training] init that by simp
  show ?thesis using 1 2 3 by blast
qed

text \<open>A standard block with 16 channels on an \<open>8 \<times> 8\<close> input, in training mode.\<close>

theorem residual_shortcut_witness:
  "\<exists>blk. ResNet_init 16 16 1 False = Some blk \<and> rn_shortcut blk = None
     \<and> ResNet_forward (shape_rt True) blk (Some (shp 1 16 8 8)) = Some (shp 1 16 8 8)"
proof -
  obtain blk where blk: "ResNet_init 16 16 1 False = Some blk" using ResNet_init_total by blast
  show ?thesis
    using blk residual_shortcut[OF blk, where b=1 and h=8 and w=8 and training=True
        and T="shape_rt False" and x=None]
    by simp
qed

text \<open>
  C4 as stated fails for standard blocks with equal channel counts and stride 1. In
  \<^verbatim>\<open>ResNet(8, 8)\<close> the channel attention has \<open>8 div 16 = 0\<close> bottleneck channels, and a
  convolution without output channels is refused. In \<^verbatim>\<open>ResNet(16, 16)\<close>, a fresh module
  in training mode, an input of shape \<open>(1, 16, 1, 1)\<close> has a single value per channel and
  the batch normalisation raises.
\<close>

theorem residual_identity_counterexample:
  "ResNet_init 8 8 1 False \<noteq> None \<and> ResNet_run False 8 8 1 False (shp 1 8 8 8) = None
   \<and> ResNet_init 16 16 1 False \<noteq> None \<and> ResNet_run True 16 16 1 False (shp 1 16 1 1) = None"
  by code_simp

text \<open>
  Claim C9. For a block built without partial convolutions and any input, under any
  interpretation of the library operations, the main path is convolution, normalisation,
  rectification, convolution, normalisation, multiplication by the channel-attention
  gate, multiplication by the spatial-attention gate, in this order, and the output is
  the rectified sum of the main path and the shortcut result.
\<close>

theorem standard_block_order:
  assumes init: "ResNet_init in_ch out_ch strd False = Some blk"
  shows "ResNet_forward T blk x =
     (let conv1 = conv2d T (nn_Conv2d in_ch out_ch 3 strd 1 True);
          bn1 = batch_norm T \<lparr>num_features = out_ch\<rparr>;
          relu = activate T ReLU;
          conv2 = conv2d T (nn_Conv2d out_ch out_ch 3 1 1 True);
          bn2 = batch_norm T \<lparr>num_features = out_ch\<rparr>;
          ca_gate = (\<lambda>y. mul T (ChannelAttention_forward T (rn_ca blk) y) y);
          sa_gate = (\<lambda>y. mul T (SpatialAttention_forward T (rn_sa blk) y) y)
      in relu (iadd T ((sa_gate \<circ> ca_gate \<circ> bn2 \<circ> conv2 \<circ> relu \<circ> bn1 \<circ> conv1) x)
                      (ResNet_residual T blk x)))"
proof -
  note blk = ResNet_init_eq[OF init]
  have f: "\<not> rn_PC blk" "rn_conv1 blk = Standard (nn_Conv2d in_ch out_ch 3 strd 1 True)"
    "rn_conv2 blk = Standard (nn_Conv2d out_ch out_ch 3 1 1 True)"
    "rn_bn1 blk = \<lparr>num_features = out_ch\<rparr>" "rn_bn2 blk = \<lparr>num_features = out_ch\<rparr>"
    "rn_relu blk = ReLU"
    by (subst blk, simp)+
  show ?thesis
    unfolding ResNet_forward_def by (simp add: f Let_def)
qed

text \<open>A standard block from 16 to 32 channels on an input of shape \<open>(2, 16, 8, 8)\<close>.\<close>

theorem standard_block_order_witness:
  "\<exists>blk. ResNet_init 16 32 1 False = Some blk
     \<and> ResNet_forward (shape_rt True) blk (Some (shp 2 16 8 8)) = Some (shp 2 32 8 8)"
proof -
  obtain blk where blk: "ResNet_init 16 32 1 False = Some blk" using ResNet_init_total by blast
  note e = ResNet_init_eq[OF blk]
  have f: "rn_ca blk = ChannelAttention_init 32 16"
    "rn_sa blk = \<lparr> sa_conv1 = nn_Conv2d 2 1 7 1 3 False, sa_sigmoid = Sigmoid \<rparr>"
    "rn_shortcut blk = Some (nn_Conv2d 16 32 1 1 0 True, \<lparr> num_features = 32 \<rparr>)"
    by (subst e, simp)+
  have "ResNet_forward (shape_rt True) blk (Some (shp 2 16 8 8)) = Some (shp 2 32 8 8)"
    unfolding standard_block_order[OF blk]
    by (simp add: f ResNet_residual_def ChannelAttention_forward_def ChannelAttention_init_def
        SpatialAttention_forward_def conv2d_shape_def conv2d_ok_def conv_out_def nn_Conv2d_def
        batch_norm_shape_def adaptive_pool_shape_def mean1_shape_def max1_shape_def
        same_frame_def broadcast_shape_def broadcast_dim_def iadd_shape_def)
  then show ?thesis using blk by blast
qed

subsection \<open>The attention gates\<close>







subsection \<open>The output heads and the supervision flag\<close>

text \<open>
  Claim C5. In a constructed network the modules \<^verbatim>\<open>up\<close>, \<^verbatim>\<open>up_4\<close>, \<^verbatim>\<open>up_8\<close> have scale
  factors 2, 4, 8, and \<^verbatim>\<open>up_16\<close> has scale factor 4. With the supervision flag set,
  \<^verbatim>\<open>forward\<close> returns four auxiliary maps, and its output is the convolution \<^verbatim>\<open>final\<close>
  (kernel \<open>3 \<times> 3\<close>, four channels in, one out) of the channel-wise concatenation of the
  first map and of the other three upsampled by 2, 4 and 8. The result of \<^verbatim>\<open>forward\<close>
  does not depend on \<^verbatim>\<open>up_16\<close>: replacing that module by any other changes nothing.
\<close>

theorem supervision_fusion:
  assumes init: "MSHNet_init ic PC = Some net"
  shows "scale_factor (up net) = 2 \<and> scale_factor (up_4 net) = 4 \<and> scale_factor (up_8 net) = 8
       \<and> scale_factor (up_16 net) = 4
       \<and> kernel_size (final net) = (3, 3) \<and> in_channels (final net) = 4
       \<and> out_channels (final net) = 1
       \<and> length (fst (MSHNet_forward T net x True)) = 4
       \<and> snd (MSHNet_forward T net x True) =
           (let aux = fst (MSHNet_forward T net x True)
            in conv2d T (final net)
                 (cat1 T [aux ! 0, upsample T (nn_Upsample 2) (aux ! 1),
                          upsample T (nn_Upsample 4) (aux ! 2),
                          upsample T (nn_Upsample 8) (aux ! 3)]))
       \<and> MSHNet_forward T (net\<lparr>up_16 := u\<rparr>) x warm_flag = MSHNet_forward T net x warm_flag"
proof -
  note f = MSHNet_init_fields[OF init]
  have 1: "scale_factor (up net) = 2 \<and> scale_factor (up_4 net) = 4 \<and> scale_factor (up_8 net) = 8
       \<and> scale_factor (up_16 net) = 4"
    by (simp add: f nn_Upsample_def)
  have 2: "kernel_size (final net) = (3, 3) \<and> in_channels (final net) = 4
       \<and> out_channels (final net) = 1"
    by (simp add: f nn_Conv2d_def)
  have 3: "length (fst (MSHNet_forward T net x True)) = 4"
    by (simp add: MSHNet_forward_def MSHNet_forward_frame_def Let_def)
  have 4: "snd (MSHNet_forward T net x True) =
           (let aux = fst (MSHNet_forward T net x True)
            in conv2d T (final net)
                 (cat1 T [aux ! 0, upsample T (nn_Upsample 2) (aux ! 1),
                          upsample T (nn_Upsample 4) (aux ! 2),
                          upsample T (nn_Upsample 8) (aux ! 3)]))"
    by (simp add: MSHNet_forward_def MSHNet_forward_frame_def Let_def f(11,12,13))
  have 5: "MSHNet_forward T (net\<lparr>up_16 := u\<rparr>) x warm_flag = MSHNet_forward T net x warm_flag"
    by (simp add: MSHNet_forward_def MSHNet_forward_frame_def Let_def)
  show ?thesis using 1 2 3 4 5 by blast
qed

text \<open>The network for three input channels, without partial convolutions.\<close>

theorem supervision_fusion_witness:
  "\<exists>net. MSHNet_init 3 False = Some net \<and> scale_factor (up_16 net) = 4
     \<and> scale_factor (up_8 net) = 8 \<and> kernel_size (final net) = (3, 3)
     \<and> length (fst (MSHNet_forward (shape_rt False) net None True)) = 4"
proof -
  obtain net where net: "MSHNet_init 3 False = Some net" using MSHNet_init_total by blast
  show ?thesis
    using net supervision_fusion[OF net, where T="shape_rt False" and x=None
        and u="nn_Upsample 16" and warm_flag=True]
    by blast
qed

text \<open>
  Claim C6. For every network, input and interpretation of the library operations, the
  encoder outputs, the bottleneck output and the four decoder outputs of a call with
  the flag set equal those of a call with the flag unset; the returned pair is obtained
  from the decoder outputs of either call by applying the output heads the flag selects.
\<close>

theorem trunk_independent_of_flag:
  "x_e0 (MSHNet_forward_frame T net x True) = x_e0 (MSHNet_forward_frame T net x False)
   \<and> x_e1 (MSHNet_forward_frame T net x True) = x_e1 (MSHNet_forward_frame T net x False)
   \<and> x_e2 (MSHNet_forward_frame T net x True) = x_e2 (MSHNet_forward_frame T net x False)
   \<and> x_e3 (MSHNet_forward_frame T net x True) = x_e3 (MSHNet_forward_frame T net x False)
   \<and> x_m (MSHNet_forward_frame T net x True) = x_m (MSHNet_forward_frame T net x False)
   \<and> x_d3 (MSHNet_forward_frame T net x True) = x_d3 (MSHNet_forward_frame T net x False)
   \<and> x_d2 (MSHNet_forward_frame T net x True) = x_d2 (MSHNet_forward_frame T net x False)
   \<and> x_d1 (MSHNet_forward_frame T net x True) = x_d1 (MSHNet_forward_frame T net x False)
   \<and> x_d0 (MSHNet_forward_frame T net x True) = x_d0 (MSHNet_forward_frame T net x False)
   \<and> MSHNet_forward T net x warm_flag =
       (let fr = MSHNet_forward_frame T net x (\<not> warm_flag);
            mask0 = conv2d T (output_0 net) (x_d0 fr);
            mask1 = conv2d T (output_1 net) (x_d1 fr);
            mask2 = conv2d T (output_2 net) (x_d2 fr);
            mask3 = conv2d T (output_3 net) (x_d3 fr)
        in if warm_flag
           then ([mask0, mask1, mask2, mask3],
                 conv2d T (final net)
                   (cat1 T [mask0, upsample T (up net) mask1, upsample T (up_4 net) mask2,
                            upsample T (up_8 net) mask3]))
           else ([], mask0))"
  by (simp add: MSHNet_forward_def MSHNet_forward_frame_def Let_def)

subsection \<open>Where partial convolutions are used\<close>

lemma make_layer_flags:
  assumes "make_layer i o' n pc = Some layer"
  shows "\<exists>first rest. layer = first # rest \<and> rn_PC first = pc
           \<and> is_partial (rn_conv1 first) = pc \<and> is_partial (rn_conv2 first) = pc
           \<and> list_all (\<lambda>blk. \<not> rn_PC blk \<and> \<not> is_partial (rn_conv1 blk)
                                \<and> \<not> is_partial (rn_conv2 blk)) rest"
proof -
  obtain f where f: "ResNet_init i o' 1 pc = Some f" using ResNet_init_total by blast
  obtain r where r: "ResNet_init o' o' 1 False = Some r" using ResNet_init_total by blast
  have l: "layer = f # replicate (n - 1) r" using assms make_layer_eq[OF f r, of n] by simp
  have pf: "rn_PC f = pc" "is_partial (rn_conv1 f) = pc" "is_partial (rn_conv2 f) = pc"
    by (subst ResNet_init_eq[OF f], simp)+
  have pr: "\<not> rn_PC r" "\<not> is_partial (rn_conv1 r)" "\<not> is_partial (rn_conv2 r)"
    by (subst ResNet_init_eq[OF r], simp)+
  have "list_all (\<lambda>blk. \<not> rn_PC blk \<and> \<not> is_partial (rn_conv1 blk)
                                \<and> \<not> is_partial (rn_conv2 blk)) (replicate (n - 1) r)"
    using pr by (simp add: list_all_iff)
  then show ?thesis using l pf by blast
qed

lemma make_layer_single:
  assumes "make_layer i o' 1 pc = Some layer"
  shows "\<exists>blk. layer = [blk] \<and> rn_PC blk = pc
           \<and> is_partial (rn_conv1 blk) = pc \<and> is_partial (rn_conv2 blk) = pc"
proof -
  obtain f where f: "ResNet_init i o' 1 pc = Some f" using ResNet_init_total by blast
  obtain r where r: "ResNet_init o' o' 1 False = Some r" using ResNet_init_total by blast
  have l: "layer = [f]" using assms make_layer_eq[OF f r, of 1] by simp
  have pf: "rn_PC f = pc" "is_partial (rn_conv1 f) = pc" "is_partial (rn_conv2 f) = pc"
    by (subst ResNet_init_eq[OF f], simp)+
  show ?thesis using l pf by blast
qed

lemma make_layer_standard:
  assumes "make_layer i o' n False = Some layer"
  shows "list_all (\<lambda>blk. \<not> rn_PC blk \<and> \<not> is_partial (rn_conv1 blk)
                                \<and> \<not> is_partial (rn_conv2 blk)) layer"
  using make_layer_flags[OF assms] by auto

text \<open>
  Claim C10. In a network constructed with \<^verbatim>\<open>PC=True\<close>, the first encoder stage is a
  single block, which uses partial convolutions; every block of encoder stages 1 to 3,
  of the bottleneck stage and of the four decoder stages is a standard block with
  library convolutions. \<^verbatim>\<open>_make_layer\<close> gives its \<^verbatim>\<open>PC\<close> argument to the first block
  only; the blocks its loop appends are built with the default \<^verbatim>\<open>PC=False\<close>.
\<close>

theorem partial_convolution_placement:
  assumes init: "MSHNet_init ic True = Some net"
  shows "(\<exists>blk. encoder_0 net = [blk] \<and> rn_PC blk
             \<and> is_partial (rn_conv1 blk) \<and> is_partial (rn_conv2 blk))
       \<and> list_all (\<lambda>blk. \<not> rn_PC blk \<and> \<not> is_partial (rn_conv1 blk)
                              \<and> \<not> is_partial (rn_conv2 blk))
           (encoder_1 net @ encoder_2 net @ encoder_3 net @ middle_layer net
            @ decoder_3 net @ decoder_2 net @ decoder_1 net @ decoder_0 net)
       \<and> (\<forall>i o' n pc layer. make_layer i o' n pc = Some layer \<longrightarrow>
            (\<exists>first rest. layer = first # rest \<and> rn_PC first = pc
               \<and> list_all (\<lambda>blk. \<not> rn_PC blk) rest))"
proof -
  note f = MSHNet_init_fields[OF init]
  have 1: "\<exists>blk. encoder_0 net = [blk] \<and> rn_PC blk
             \<and> is_partial (rn_conv1 blk) \<and> is_partial (rn_conv2 blk)"
    using make_layer_single[OF f(1)] by auto
  have 2: "list_all (\<lambda>blk. \<not> rn_PC blk \<and> \<not> is_partial (rn_conv1 blk)
                              \<and> \<not> is_partial (rn_conv2 blk))
           (encoder_1 net @ encoder_2 net @ encoder_3 net @ middle_layer net
            @ decoder_3 net @ decoder_2 net @ decoder_1 net @ decoder_0 net)"
    using make_layer_standard[OF f(2)] make_layer_standard[OF f(3)] make_layer_standard[OF f(4)]
      make_layer_standard[OF f(5)] make_layer_standard[OF f(6)] make_layer_standard[OF f(7)]
      make_layer_standard[OF f(8)] make_layer_standard[OF f(9)]
    by simp
  have 3: "\<exists>first rest. layer = first # rest \<and> rn_PC first = pc
               \<and> list_all (\<lambda>blk. \<not> rn_PC blk) rest"
    if "make_layer i o' n pc = Some layer" for i o' n pc layer
    using make_layer_flags[OF that] by (auto simp add: list_all_iff)
  show ?thesis using 1 2 3 by blast
qed

text \<open>The network for three input channels with \<^verbatim>\<open>PC=True\<close>.\<close>

theorem partial_convolution_placement_witness:
  "\<exists>net. MSHNet_init 3 True = Some net
     \<and> list_all rn_PC (encoder_0 net) \<and> length (encoder_0 net) = 1
     \<and> list_all (\<lambda>blk. \<not> rn_PC blk) (encoder_1 net @ middle_layer net @ decoder_0 net)"
proof -
  obtain net where net: "MSHNet_init 3 True = Some net" using MSHNet_init_total by blast
  note w = partial_convolution_placement[OF net]
  have "list_all rn_PC (encoder_0 net) \<and> length (encoder_0 net) = 1" using w by auto
  moreover have "list_all (\<lambda>blk. \<not> rn_PC blk) (encoder_1 net @ middle_layer net @ decoder_0 net)"
    using w by (auto simp add: list_all_iff)
  ultimately show ?thesis using net by blast
qed

end
